theory Spec2Isabelle
  imports Main
begin


section \<open>Python strings\<close>

text \<open>
  A Python \<^verbatim>\<open>str\<close> is a sequence of Unicode code points. A code point is a natural
  number (\<^verbatim>\<open>ord(char)\<close>), so \<^verbatim>\<open>ord(char) < 128\<close> is \<open>c < 128\<close>. ASCII literals of
  the source are written \<open>asc ''...''\<close>.
\<close>

type_synonym uchar = nat
type_synonym ustr = "uchar list"

definition asc :: "string \<Rightarrow> ustr" where
  "asc s = map of_char s"

text \<open>\<^verbatim>\<open>s.startswith(p)\<close>.\<close>

fun startswith :: "ustr \<Rightarrow> ustr \<Rightarrow> bool" where
  "startswith s [] = True"
| "startswith [] (p # ps) = False"
| "startswith (c # cs) (p # ps) = (c = p \<and> startswith cs ps)"

text \<open>\<^verbatim>\<open>sub in s\<close>: \<open>sub\<close> occurs in \<open>s\<close> at some position.\<close>

fun contains :: "ustr \<Rightarrow> ustr \<Rightarrow> bool" where
  "contains sub [] = startswith [] sub"
| "contains sub (c # cs) = (startswith (c # cs) sub \<or> contains sub cs)"

text \<open>
  \<^verbatim>\<open>s.replace(old, new)\<close>: every occurrence of \<open>old\<close>, found from the left and not
  overlapping an earlier one, is replaced. With an empty \<open>old\<close> Python puts \<open>new\<close> before
  every character and at the end.
\<close>

function replace :: "ustr \<Rightarrow> ustr \<Rightarrow> ustr \<Rightarrow> ustr" where
  "replace old new s =
     (if old = [] then new @ concat (map (\<lambda>c. c # new) s)
      else case s of
        [] \<Rightarrow> []
      | c # cs \<Rightarrow>
          if startswith s old then new @ replace old new (drop (length old) s)
          else c # replace old new cs)"
  by pat_completeness auto
termination
  by (relation "measure (\<lambda>(old, new, s). length s)") auto

declare replace.simps [simp del]

text \<open>
  \<^verbatim>\<open>str.isspace\<close> of one character, the set \<^verbatim>\<open>s.strip()\<close> removes at both ends:
  the code points Python classifies as whitespace.
\<close>

definition py_isspace :: "uchar \<Rightarrow> bool" where
  "py_isspace c =
     ((9 \<le> c \<and> c \<le> 13) \<or> (28 \<le> c \<and> c \<le> 32) \<or> c = 133 \<or> c = 160 \<or> c = 5760 \<or>
      (8192 \<le> c \<and> c \<le> 8202) \<or> c = 8232 \<or> c = 8233 \<or> c = 8239 \<or> c = 8287 \<or> c = 12288)"

definition strip :: "ustr \<Rightarrow> ustr" where
  "strip s = rev (dropWhile py_isspace (rev (dropWhile py_isspace s)))"

text \<open>\<^verbatim>\<open>sep.join(parts)\<close>.\<close>

fun join :: "ustr \<Rightarrow> ustr list \<Rightarrow> ustr" where
  "join sep [] = []"
| "join sep [p] = p"
| "join sep (p # q # ps) = p @ sep @ join sep (q # ps)"

text \<open>\<^verbatim>\<open>s.split(sep)\<close> for a separator of one character.\<close>

fun split_on :: "uchar \<Rightarrow> ustr \<Rightarrow> ustr list" where
  "split_on sep [] = [[]]"
| "split_on sep (c # cs) =
     (if c = sep then [] # split_on sep cs
      else (c # hd (split_on sep cs)) # tl (split_on sep cs))"

section \<open>Decimal numerals\<close>

definition is_digit :: "uchar \<Rightarrow> bool" where
  "is_digit c = (48 \<le> c \<and> c \<le> 57)"

text \<open>The value of a string of ASCII digits, most significant first.\<close>

definition digits_val :: "ustr \<Rightarrow> nat" where
  "digits_val ds = foldl (\<lambda>a c. 10 * a + (c - 48)) 0 ds"

text \<open>\<^verbatim>\<open>str(n)\<close> for \<open>n \<ge> 0\<close>.\<close>

fun str_nat :: "nat \<Rightarrow> ustr" where
  "str_nat n = (if n < 10 then [48 + n] else str_nat (n div 10) @ [48 + n mod 10])"

declare str_nat.simps [simp del]

text \<open>A numeral filled with zeros on the left to a width of \<open>w\<close>.\<close>

definition zfill :: "nat \<Rightarrow> ustr \<Rightarrow> ustr" where
  "zfill w s = replicate (w - length s) 48 @ s"

text \<open>
  \<^verbatim>\<open>f"{i:02d}"\<close>: the decimal numeral filled with zeros to a width of two. The sign of
  a negative number counts for the width, so a negative number is never filled.
\<close>

definition fmt_02d :: "int \<Rightarrow> ustr" where
  "fmt_02d i = (if i < 0 then 45 # str_nat (nat (- i)) else zfill 2 (str_nat (nat i)))"

text \<open>\<^verbatim>\<open>str(i)\<close> for an integer.\<close>

definition str_int :: "int \<Rightarrow> ustr" where
  "str_int i = (if i < 0 then 45 # str_nat (nat (- i)) else str_nat (nat i))"

section \<open>Exceptions\<close>

text \<open>
  The exceptions of the program and of the libraries it calls, as values. A function that
  can raise returns \<open>exn + 'a\<close>, with \<open>Inl\<close> for the exception. \<open>ServiceError\<close> stands
  for whatever the remote service's client raises (transport, quota, HTTP status).
  \<open>Unmodelled\<close> marks an input on which a library's result is not determined by this
  development (it depends on floating point or on a format left out below).
\<close>

datatype exn =
    KeyError string
  | ValueError
  | OverflowError
  | ISO8601Error
  | ServiceError nat
  | Unmodelled

section \<open>Durations\<close>

text \<open>
  \<^verbatim>\<open>isodate.parse_duration\<close> matches the string against
  \<^verbatim>\<open>^[+-]?P(?!\b)(nY)?(nM)?(nW)?(nD)?(T(nH)?(nM)?(nS)?)?$\<close>
  and builds a \<^verbatim>\<open>timedelta\<close> from weeks, days, hours, minutes and seconds. The model
  covers components that are whole numbers. Years and months are matched; they are kept
  outside the \<^verbatim>\<open>timedelta\<close>, so \<^verbatim>\<open>total_seconds()\<close> does not count them. A string
  starting with \<open>P\<close> the expression does not match (a fractional component, the
  alternative date-like format) is \<open>Unmodelled\<close>.

  \<open>component d s\<close> is one optional group \<^verbatim>\<open>([0-9]+d)?\<close> at the start of \<open>s\<close>: its
  value (0 when the group is absent) and the rest of the string.
\<close>

definition component :: "uchar \<Rightarrow> ustr \<Rightarrow> nat \<times> ustr" where
  "component d s =
     (let ds = takeWhile is_digit s; r = dropWhile is_digit s
      in if ds \<noteq> [] \<and> startswith r [d] then (digits_val ds, tl r) else (0, s))"

text \<open>\<^verbatim>\<open>$\<close> matches at the end of the string and before a final newline.\<close>

definition at_end :: "ustr \<Rightarrow> bool" where
  "at_end s = (s = [] \<or> s = [10])"

text \<open>
  The time part \<^verbatim>\<open>(T(nH)?(nM)?(nS)?)?\<close>: hours, minutes, seconds and the rest.
\<close>

definition time_part :: "ustr \<Rightarrow> nat \<times> nat \<times> nat \<times> ustr" where
  "time_part s =
     (if startswith s [84] then
        (let (hours, s1) = component 72 (tl s);
             (minutes, s2) = component 77 s1;
             (seconds, s3) = component 83 s2
         in (hours, minutes, seconds, s3))
      else (0, 0, 0, s))"

text \<open>
  The whole expression: whether the sign is \<open>-\<close>, and the seconds of the
  \<^verbatim>\<open>timedelta\<close> before the sign is applied. After \<open>P\<close> the lookahead \<^verbatim>\<open>(?!\b)\<close>
  asks for a word character; the rest of the expression can only go on with a digit or
  \<open>T\<close> there.
\<close>

definition match_period :: "ustr \<Rightarrow> (bool \<times> nat) option" where
  "match_period s =
     (let (neg, s1) =
            (if startswith s [43] then (False, tl s)
             else if startswith s [45] then (True, tl s) else (False, s))
      in if \<not> startswith s1 [80] then None
         else let s2 = tl s1
           in if s2 = [] \<or> \<not> (is_digit (hd s2) \<or> hd s2 = 84) then None
              else
                let (years, s3) = component 89 s2;
                    (months, s4) = component 77 s3;
                    (weeks, s5) = component 87 s4;
                    (days, s6) = component 68 s5;
                    (hours, minutes, seconds, s7) = time_part s6
                in if at_end s7
                   then Some (neg, ((weeks * 7 + days) * 24 + hours) * 3600 + minutes * 60 + seconds)
                   else None)"

text \<open>
  \<^verbatim>\<open>int(isodate.parse_duration(s).total_seconds())\<close>. A \<^verbatim>\<open>timedelta\<close> holds at
  most 999999999 days in either direction and raises \<^verbatim>\<open>OverflowError\<close> beyond; a
  negative sign subtracts the duration from zero.
\<close>

definition parse_duration :: "ustr \<Rightarrow> exn + int" where
  "parse_duration s =
     (case match_period s of
        None \<Rightarrow>
          if startswith s [80] \<or> startswith s [43, 80] \<or> startswith s [45, 80]
          then Inl Unmodelled else Inl ISO8601Error
      | Some (neg, secs) \<Rightarrow>
          if int secs \<ge> 1000000000 * 86400 then Inl OverflowError
          else if neg \<and> int secs > 999999999 * 86400 then Inl OverflowError
          else Inr (if neg then - int secs else int secs))"

text \<open>
  Lines 280 to 286 of \<^verbatim>\<open>clean_duration_time\<close>: hours, minutes and seconds of the
  total by floor division, rendered as \<^verbatim>\<open>f"{hours:02d}:{minutes:02d}:{seconds:02d}"\<close>.
\<close>

definition format_hms :: "int \<Rightarrow> ustr" where
  "format_hms total_seconds =
     (let hours = total_seconds div 3600;
          minutes = (total_seconds mod 3600) div 60;
          seconds = total_seconds mod 60
      in fmt_02d hours @ [58] @ fmt_02d minutes @ [58] @ fmt_02d seconds)"

definition clean_duration_time :: "ustr \<Rightarrow> exn + ustr" where
  "clean_duration_time duration =
     (case parse_duration duration of
        Inl e \<Rightarrow> Inl e
      | Inr total_seconds \<Rightarrow> Inr (format_hms total_seconds))"

section \<open>Upload timestamps\<close>

text \<open>
  What \<^verbatim>\<open>strftime("%Y-%m-%d %H:%M:%S")\<close> prints of a \<^verbatim>\<open>datetime\<close>: the six fields.
  The microsecond and the time zone are parsed and never printed, so they are not kept.
\<close>

record datetime =
  dt_year :: nat
  dt_month :: nat
  dt_day :: nat
  dt_hour :: nat
  dt_minute :: nat
  dt_second :: nat

definition is_leap :: "nat \<Rightarrow> bool" where
  "is_leap y = (y mod 4 = 0 \<and> (y mod 100 \<noteq> 0 \<or> y mod 400 = 0))"

definition days_in_month :: "nat \<Rightarrow> nat \<Rightarrow> nat" where
  "days_in_month y m =
     (if m = 2 then (if is_leap y then 29 else 28)
      else if m = 4 \<or> m = 6 \<or> m = 9 \<or> m = 11 then 30 else 31)"

text \<open>
  \<^verbatim>\<open>datetime.fromisoformat\<close> (Python 3.11 and later, where a final \<open>Z\<close> is read) on
  the timestamps of RFC 3339:
  \<^verbatim>\<open>YYYY-MM-DD\<close>, one separator character, \<^verbatim>\<open>HH:MM:SS\<close>, an optional fraction
  (\<open>.\<close> or \<open>,\<close> and digits), and an optional zone (\<open>Z\<close> or \<^verbatim>\<open>+HH:MM\<close>,
  \<^verbatim>\<open>-HH:MM\<close>). A field out of range raises \<^verbatim>\<open>ValueError\<close>, and so does the empty
  string. The other shapes of ISO 8601 the library reads (a date alone, the basic format,
  week dates, reduced precision) are \<open>Unmodelled\<close>.

  \<open>iso_date\<close> and \<open>iso_time\<close> read the fixed-width fields and return the rest.
\<close>

definition iso_date :: "ustr \<Rightarrow> ((nat \<times> nat \<times> nat) \<times> ustr) option" where
  "iso_date s =
     (case s of
        y1 # y2 # y3 # y4 # h1 # m1 # m2 # h2 # d1 # d2 # rest \<Rightarrow>
          if list_all is_digit [y1, y2, y3, y4, m1, m2, d1, d2] \<and> h1 = 45 \<and> h2 = 45
          then Some ((digits_val [y1, y2, y3, y4], digits_val [m1, m2], digits_val [d1, d2]), rest)
          else None
      | _ \<Rightarrow> None)"

definition iso_time :: "ustr \<Rightarrow> ((nat \<times> nat \<times> nat) \<times> ustr) option" where
  "iso_time s =
     (case s of
        h1 # h2 # c1 # m1 # m2 # c2 # s1 # s2 # rest \<Rightarrow>
          if list_all is_digit [h1, h2, m1, m2, s1, s2] \<and> c1 = 58 \<and> c2 = 58
          then Some ((digits_val [h1, h2], digits_val [m1, m2], digits_val [s1, s2]), rest)
          else None
      | _ \<Rightarrow> None)"

text \<open>The optional fraction: the rest after it, or \<open>None\<close> when no digit follows the mark.\<close>

definition iso_fraction :: "ustr \<Rightarrow> ustr option" where
  "iso_fraction s =
     (if startswith s [46] \<or> startswith s [44] then
        (if takeWhile is_digit (tl s) = [] then None else Some (dropWhile is_digit (tl s)))
      else Some s)"

text \<open>
  The optional zone, up to the end of the string: whether its offset is in range (less
  than 24 hours; the two fields are not checked one by one).
\<close>

definition iso_zone :: "ustr \<Rightarrow> bool option" where
  "iso_zone s =
     (if s = [] \<or> s = [90] then Some True
      else case s of
        [sg, h1, h2, c, m1, m2] \<Rightarrow>
          if (sg = 43 \<or> sg = 45) \<and> list_all is_digit [h1, h2, m1, m2] \<and> c = 58
          then Some (digits_val [h1, h2] * 60 + digits_val [m1, m2] < 1440)
          else None
      | _ \<Rightarrow> None)"

definition fromisoformat :: "ustr \<Rightarrow> exn + datetime" where
  "fromisoformat s =
     (if s = [] then Inl ValueError
      else case iso_date s of
        None \<Rightarrow> Inl Unmodelled
      | Some ((y, m, d), r1) \<Rightarrow>
          (case r1 of
             [] \<Rightarrow> Inl Unmodelled
           | sep # r2 \<Rightarrow>
               (case iso_time r2 of
                  None \<Rightarrow> Inl Unmodelled
                | Some ((hh, mm, ss), r3) \<Rightarrow>
                    (case iso_fraction r3 of
                       None \<Rightarrow> Inl Unmodelled
                     | Some r4 \<Rightarrow>
                         (case iso_zone r4 of
                            None \<Rightarrow> Inl Unmodelled
                          | Some zone_ok \<Rightarrow>
                              if 1 \<le> y \<and> 1 \<le> m \<and> m \<le> 12 \<and> 1 \<le> d \<and> d \<le> days_in_month y m \<and>
                                 hh < 24 \<and> mm < 60 \<and> ss < 60 \<and> zone_ok
                              then Inr \<lparr>dt_year = y, dt_month = m, dt_day = d,
                                        dt_hour = hh, dt_minute = mm, dt_second = ss\<rparr>
                              else Inl ValueError)))))"

text \<open>
  \<^verbatim>\<open>dt.strftime("%Y-%m-%d %H:%M:%S")\<close>. \<open>%Y\<close> is the year in four digits as the
  library documents it; for a year below 1000 some C libraries print fewer digits, and
  nothing below is stated for such a year.
\<close>

definition strftime :: "datetime \<Rightarrow> ustr" where
  "strftime dt =
     zfill 4 (str_nat (dt_year dt)) @ [45] @ zfill 2 (str_nat (dt_month dt)) @ [45] @
     zfill 2 (str_nat (dt_day dt)) @ [32] @ zfill 2 (str_nat (dt_hour dt)) @ [58] @
     zfill 2 (str_nat (dt_minute dt)) @ [58] @ zfill 2 (str_nat (dt_second dt))"

definition process_datetime :: "ustr \<Rightarrow> exn + ustr" where
  "process_datetime datetime_str =
     (case fromisoformat datetime_str of
        Inl e \<Rightarrow> Inl e
      | Inr dt \<Rightarrow> Inr (strftime dt))"

section \<open>Watch timestamps\<close>

definition clean_date_time :: "ustr \<Rightarrow> ustr" where
  "clean_date_time date_time =
     (let cleaned_date_time = filter (\<lambda>char. char < 128) date_time
      in if contains (asc ''PM'') cleaned_date_time
         then replace (asc ''PM'') (asc '' PM'') cleaned_date_time
         else replace (asc ''AM'') (asc '' AM'') cleaned_date_time)"

section \<open>The log\<close>

text \<open>
  One constructor for each call of \<^verbatim>\<open>logging\<close> in the source, with the values it
  formats into the message. All are warnings but \<open>Processing_video_URL\<close>, which is a
  debug message.
\<close>

datatype log_entry =
    No_title_found
  | Processing_video_URL ustr
  | Encountered_None_URL
  | No_video_items ustr
  | Error_processing ustr exn
  | Failed_to_extract_ID "ustr option"
  | Invalid_or_missing_URL "ustr option"

fun is_warning :: "log_entry \<Rightarrow> bool" where
  "is_warning (Processing_video_URL u) = False"
| "is_warning e = True"

section \<open>Video identifiers\<close>

definition watch_prefix :: ustr where
  "watch_prefix = asc ''https://www.youtube.com/watch?v=''"

text \<open>
  \<^verbatim>\<open>extract_video_id\<close> returns the identifier, or \<open>None\<close> with the warning it logs.
  \<^verbatim>\<open>if video_url and ...\<close> is false for \<open>None\<close> and for the empty string.
\<close>

definition extract_video_id :: "ustr option \<Rightarrow> ustr option \<times> log_entry list" where
  "extract_video_id video_url =
     (case video_url of
        Some u \<Rightarrow>
          if u \<noteq> [] \<and> contains watch_prefix u then (Some (replace watch_prefix [] u), [])
          else (None, [Invalid_or_missing_URL video_url])
      | None \<Rightarrow> (None, [Invalid_or_missing_URL video_url]))"

section \<open>The History Extractor\<close>

text \<open>
  The title test of line 65: \<^verbatim>\<open>re.search\<close> of
  \<^verbatim>\<open>https?://(?:www\.)?youtube\.com/watch\?v=([a-zA-Z0-9_-]+)\<close>.
  The two optional parts give four literal heads; a match is one of them followed by at
  least one character of the class, anywhere in the string.
\<close>

definition is_id_char :: "uchar \<Rightarrow> bool" where
  "is_id_char c =
     ((97 \<le> c \<and> c \<le> 122) \<or> (65 \<le> c \<and> c \<le> 90) \<or> (48 \<le> c \<and> c \<le> 57) \<or> c = 95 \<or> c = 45)"

definition watch_url_heads :: "ustr list" where
  "watch_url_heads =
     [asc ''http://youtube.com/watch?v='', asc ''https://youtube.com/watch?v='',
      asc ''http://www.youtube.com/watch?v='', asc ''https://www.youtube.com/watch?v='']"

definition match_watch_url :: "ustr \<Rightarrow> bool" where
  "match_watch_url s =
     list_ex (\<lambda>h. startswith s h \<and>
                (case drop (length h) s of [] \<Rightarrow> False | c # cs \<Rightarrow> is_id_char c))
       watch_url_heads"

fun search_watch_url :: "ustr \<Rightarrow> bool" where
  "search_watch_url [] = False"
| "search_watch_url (c # cs) = (match_watch_url (c # cs) \<or> search_watch_url cs)"

text \<open>
  The parsed document is taken as the answers \<^verbatim>\<open>BeautifulSoup\<close> gives to the
  queries of the source. An \<^verbatim>\<open><a>\<close> element has its text (\<^verbatim>\<open>.text\<close>), its
  \<^verbatim>\<open>href\<close> attribute when it has one (\<^verbatim>\<open>element["href"]\<close> raises
  \<^verbatim>\<open>KeyError\<close> otherwise), the next \<^verbatim>\<open><a>\<close> of the document
  (\<^verbatim>\<open>find_next("a")\<close>) and its next sibling that is a string
  (\<^verbatim>\<open>find_next_sibling(string=True)\<close>). A container is the answer to
  \<^verbatim>\<open>video.find("a")\<close>: its first \<^verbatim>\<open><a>\<close>, if any.
\<close>

datatype anchor =
  Anchor (a_text: ustr) (a_href: "ustr option") (find_next_a: "anchor option")
    (find_next_sibling_string: "ustr option")

type_synonym container = "anchor option"

text \<open>
  A record of \<^verbatim>\<open>videos_data\<close>: a Python dict, its keys in the order of the literal of
  lines 96 to 110, each value \<open>None\<close> or a string.
\<close>

type_synonym video_dict = "(string \<times> ustr option) list"

definition video_dict ::
  "ustr option \<Rightarrow> ustr option \<Rightarrow> ustr option \<Rightarrow> ustr option \<Rightarrow> ustr option \<Rightarrow> video_dict" where
  "video_dict title url channel_name channel_url date_time =
     (let video_date_upload = None; video_views = None; video_likes = None;
          video_dislikes = None; video_comment_count = None; video_description = None;
          video_tags = None; video_duration = None
      in [(''title'', title),
          (''url'', url),
          (''video_duration'', video_duration),
          (''channel_name'', channel_name),
          (''channel_url'', channel_url),
          (''date_time'', date_time),
          (''video_date_upload'', video_date_upload),
          (''video_views'', video_views),
          (''video_likes'', video_likes),
          (''video_dislikes'', video_dislikes),
          (''video_comment_count'', video_comment_count),
          (''video_description'', video_description),
          (''video_tags'', video_tags)])"

text \<open>
  The body of the loop of lines 54 to 111 for one container: the record appended to
  \<^verbatim>\<open>videos_data\<close> (\<open>None\<close> when the container is skipped) and what is logged, or
  the exception that leaves the function. \<open>cleaned_date_time\<close> is computed at line 93
  and not used again.
\<close>

definition extract_video :: "container \<Rightarrow> exn + (video_dict option \<times> log_entry list)" where
  "extract_video title_element =
     (case title_element of
        None \<Rightarrow> Inr (None, [No_title_found])
      | Some a \<Rightarrow>
          let title = strip (a_text a)
          in if title = [] \<or> search_watch_url title then Inr (None, [No_title_found])
             else
               (case a_href a of
                  None \<Rightarrow> Inl (KeyError ''href'')
                | Some url \<Rightarrow>
                    (case find_next_a a of
                       None \<Rightarrow> Inr (Some (video_dict (Some title) (Some url) None None None), [])
                     | Some channel_element \<Rightarrow>
                         let channel_name = strip (a_text channel_element)
                         in (case a_href channel_element of
                               None \<Rightarrow> Inl (KeyError ''href'')
                             | Some channel_url \<Rightarrow>
                                 let date_time =
                                       (case find_next_sibling_string channel_element of
                                          None \<Rightarrow> None
                                        | Some date_time_element \<Rightarrow>
                                            if date_time_element = [] then None
                                            else Some (strip date_time_element));
                                     cleaned_date_time = map_option clean_date_time date_time
                                 in Inr (Some (video_dict (Some title) (Some url)
                                                (Some channel_name) (Some channel_url) date_time),
                                         [])))))"

fun scan_videos ::
  "container list \<Rightarrow> video_dict list \<times> log_entry list \<Rightarrow>
   exn + (video_dict list \<times> log_entry list)" where
  "scan_videos [] acc = Inr acc"
| "scan_videos (video # rest) (videos_data, logged) =
     (case extract_video video of
        Inl e \<Rightarrow> Inl e
      | Inr (r, l) \<Rightarrow>
          scan_videos rest
            (videos_data @ (case r of None \<Rightarrow> [] | Some d \<Rightarrow> [d]), logged @ l))"

section \<open>The table file\<close>

text \<open>
  A CSV file holds text: a header and rows of cells. A row is kept with its column
  names. The quoting of cells and the encoding of the file are not modelled.
\<close>

type_synonym row = "(string \<times> ustr) list"

record table =
  header :: "string list"
  body :: "row list"

definition fieldnames :: "string list" where
  "fieldnames =
     [''title'', ''url'', ''video_duration'', ''channel_name'', ''channel_url'', ''date_time'',
      ''video_date_upload'', ''video_views'', ''video_likes'', ''video_dislikes'',
      ''video_comment_count'', ''video_description'', ''video_tags'']"

text \<open>
  \<^verbatim>\<open>DictWriter.writerow\<close>: a key that is no field name raises \<^verbatim>\<open>ValueError\<close>; the
  cells are the values of the field names in their order, \<open>None\<close> and a missing key
  written as the empty string.
\<close>

definition writerow :: "string list \<Rightarrow> video_dict \<Rightarrow> exn + row" where
  "writerow names d =
     (if list_ex (\<lambda>k. k \<notin> set names) (map fst d) then Inl ValueError
      else Inr (map (\<lambda>k. (k, case map_of d k of Some (Some s) \<Rightarrow> s | _ \<Rightarrow> [])) names))"

fun writerows :: "string list \<Rightarrow> video_dict list \<Rightarrow> exn + row list" where
  "writerows names [] = Inr []"
| "writerows names (d # ds) =
     (case writerow names d of
        Inl e \<Rightarrow> Inl e
      | Inr r \<Rightarrow> (case writerows names ds of Inl e \<Rightarrow> Inl e | Inr rs \<Rightarrow> Inr (r # rs)))"

text \<open>
  \<^verbatim>\<open>extract_data_from_html\<close> from the containers \<^verbatim>\<open>find_all\<close> returned: the file
  written and the log, or the exception raised.
\<close>

definition extract_data_from_html :: "container list \<Rightarrow> exn + (table \<times> log_entry list)" where
  "extract_data_from_html video_elements =
     (case scan_videos video_elements ([], []) of
        Inl e \<Rightarrow> Inl e
      | Inr (videos_data, logged) \<Rightarrow>
          (case writerows fieldnames videos_data of
             Inl e \<Rightarrow> Inl e
           | Inr rows \<Rightarrow> Inr (\<lparr>header = fieldnames, body = rows\<rparr>, logged)))"

section \<open>The Metadata Enricher\<close>

text \<open>
  The response of the remote service, as far as the source reads it. A facet or a field
  the service leaves out is \<open>None\<close>. The response is \<open>None\<close> when it has no
  \<^verbatim>\<open>"items"\<close> key. The client is a function from the identifier to the response or
  to the exception \<^verbatim>\<open>execute()\<close> raises.
\<close>

record video_snippet =
  publishedAt :: "ustr option"
  description :: "ustr option"
  tags :: "ustr list option"

record video_content_details =
  duration :: "ustr option"

record video_statistics =
  viewCount :: "ustr option"
  likeCount :: "ustr option"
  dislikeCount :: "ustr option"
  commentCount :: "ustr option"

record video_item =
  snippet :: "video_snippet option"
  contentDetails :: "video_content_details option"
  statistics :: "video_statistics option"

type_synonym video_response = "video_item list option"

type_synonym youtube_client = "ustr \<Rightarrow> exn + video_response"

definition try_bind :: "exn + 'a \<Rightarrow> ('a \<Rightarrow> exn + 'b) \<Rightarrow> exn + 'b" where
  "try_bind m f = (case m of Inl e \<Rightarrow> Inl e | Inr x \<Rightarrow> f x)"

text \<open>
  \<^verbatim>\<open>int(s)\<close> of a string: white space around it is dropped, then a sign and decimal
  digits are read. Digits grouped by underscores and digits outside ASCII, which Python
  reads too, are \<open>Unmodelled\<close>. \<open>count\<close> is \<^verbatim>\<open>int(video_stats.get(key, 0))\<close>.
\<close>

definition py_int :: "ustr \<Rightarrow> exn + int" where
  "py_int s =
     (let t = strip s;
          neg = startswith t [45];
          ds = (if startswith t [45] \<or> startswith t [43] then tl t else t)
      in if ds \<noteq> [] \<and> list_all is_digit ds
         then Inr (if neg then - int (digits_val ds) else int (digits_val ds))
         else if list_ex (\<lambda>c. 128 \<le> c \<or> c = 95) ds then Inl Unmodelled
         else Inl ValueError)"

definition count :: "ustr option \<Rightarrow> exn + int" where
  "count v = (case v of None \<Rightarrow> Inr 0 | Some s \<Rightarrow> py_int s)"

definition metadata_columns :: "string list" where
  "metadata_columns =
     [''video_date_upload'', ''video_views'', ''video_likes'', ''video_dislikes'',
      ''video_comment_count'', ''video_description'', ''video_tags'', ''video_duration'']"

text \<open>
  \<^verbatim>\<open>pandas\<close> reads the file into a table of values, and writes a table of values
  back. A cell of that table is missing (\<^verbatim>\<open>NaN\<close>), a string, a whole number, or some
  other value (a float, a Boolean), kept as \<open>Other\<close> with the text that stands for
  it. A whole number may be held as an integer or as a float of the same value, by the
  type of its column. Each row carries its column names, in the order of \<open>columns\<close>.
\<close>

datatype cell = Missing | Text ustr | Whole int | Other ustr

type_synonym frame_row = "(string \<times> cell) list"

record dataframe =
  columns :: "string list"
  frame_rows :: "frame_row list"

text \<open>
  What \<^verbatim>\<open>pandas\<close> does is not fixed here; it is a parameter of the Enricher:
  \<^item> \<open>read_csv\<close> is \<^verbatim>\<open>pd.read_csv(youtube_data)\<close>: the table of values read from the
    file, or the exception raised. Which cells it reads as missing or as numbers is
    its own matter (with its defaults, the cell \<^verbatim>\<open>NA\<close> and the empty cell are missing).
  \<^item> \<open>setitem_error\<close> is the exception, if any, with which the assignment of lines 196
    to 236 refuses the values for the types of the columns (pandas 3 refuses a string
    for a column of floats, pandas 2 converts the column).
  \<^item> \<open>to_csv\<close> is \<^verbatim>\<open>df.to_csv(youtube_data, index=False)\<close>: the file written for a table
    of values. A failure while the file is written is not modelled.
\<close>

record pandas =
  read_csv :: "table \<Rightarrow> exn + dataframe"
  setitem_error :: "dataframe \<Rightarrow> ustr \<Rightarrow> frame_row \<Rightarrow> exn option"
  to_csv :: "dataframe \<Rightarrow> table"

text \<open>
  Lines 187 to 191: the three facets of the first item. \<^verbatim>\<open>item["snippet"]\<close> and
  \<^verbatim>\<open>item["contentDetails"]\<close> raise \<^verbatim>\<open>KeyError\<close> when the facet is absent;
  \<^verbatim>\<open>item.get("statistics", {})\<close> is then the empty dict.
\<close>

definition item_facets ::
  "video_item \<Rightarrow> exn + (video_snippet \<times> video_content_details \<times> video_statistics)" where
  "item_facets it =
     (case snippet it of
        None \<Rightarrow> Inl (KeyError ''snippet'')
      | Some video_info \<Rightarrow>
          (case contentDetails it of
             None \<Rightarrow> Inl (KeyError ''contentDetails'')
           | Some video_content_details \<Rightarrow>
               Inr (video_info, video_content_details,
                    (case statistics it of
                       None \<Rightarrow> \<lparr>viewCount = None, likeCount = None, dislikeCount = None,
                                commentCount = None\<rparr>
                     | Some video_stats \<Rightarrow> video_stats))))"

text \<open>
  The tuple of lines 208 to 236: the eight values in the order Python evaluates them,
  paired with their columns. The first exception raised is the one that leaves the
  block.
\<close>

definition field_mapping ::
  "video_snippet \<Rightarrow> video_content_details \<Rightarrow> video_statistics \<Rightarrow> exn + frame_row" where
  "field_mapping video_info video_content_details video_stats =
     try_bind (process_datetime (case publishedAt video_info of None \<Rightarrow> [] | Some p \<Rightarrow> p))
       (\<lambda>video_date_upload.
     try_bind (count (viewCount video_stats)) (\<lambda>video_views.
     try_bind (count (likeCount video_stats)) (\<lambda>video_likes.
     try_bind (count (dislikeCount video_stats)) (\<lambda>video_dislikes.
     try_bind (count (commentCount video_stats)) (\<lambda>video_comment_count.
     let video_description = (case description video_info of None \<Rightarrow> [] | Some d \<Rightarrow> d);
         video_tags = (case tags video_info of None \<Rightarrow> [] | Some ts \<Rightarrow> join [44] ts)
     in
     try_bind (clean_duration_time
                 (case duration video_content_details of None \<Rightarrow> [] | Some d \<Rightarrow> d))
       (\<lambda>video_duration.
     Inr (zip metadata_columns
            [Text video_date_upload, Whole video_views, Whole video_likes,
             Whole video_dislikes, Whole video_comment_count,
             Text video_description, Text video_tags, Text video_duration])))))))"

text \<open>
  \<^verbatim>\<open>df.loc[df["url"] == video_url, columns] = values\<close>, when the assignment is accepted:
  in every row whose \<open>url\<close> cell is the string \<open>video_url\<close>, each of the columns gets its
  new value; a row keeps its columns and their order.
\<close>

definition set_columns :: "(string \<times> 'a) list \<Rightarrow> (string \<times> 'a) list \<Rightarrow> (string \<times> 'a) list" where
  "set_columns new r = map (\<lambda>(k, v). (k, case map_of new k of Some v' \<Rightarrow> v' | None \<Rightarrow> v)) r"

definition assigned :: "ustr \<Rightarrow> frame_row \<Rightarrow> dataframe \<Rightarrow> dataframe" where
  "assigned video_url new df =
     df\<lparr>frame_rows :=
          map (\<lambda>r. if map_of r ''url'' = Some (Text video_url) then set_columns new r else r)
            (frame_rows df)\<rparr>"

text \<open>
  The statement of lines 196 to 236 as a whole. \<^verbatim>\<open>df["url"]\<close> raises
  \<^verbatim>\<open>KeyError\<close> without that column. For a table that lacks one of the columns assigned
  to, what pandas does depends on its version, and the result is \<open>Unmodelled\<close>. Then
  pandas accepts the values or refuses them.
\<close>

definition loc_assign :: "pandas \<Rightarrow> ustr \<Rightarrow> frame_row \<Rightarrow> dataframe \<Rightarrow> exn + dataframe" where
  "loc_assign pd video_url new df =
     (if ''url'' \<notin> set (columns df) then Inl (KeyError ''url'')
      else if list_ex (\<lambda>k. k \<notin> set (columns df)) (map fst new) then Inl Unmodelled
      else case setitem_error pd df video_url new of
             Some e \<Rightarrow> Inl e
           | None \<Rightarrow> Inr (assigned video_url new df))"

text \<open>
  The \<^verbatim>\<open>try\<close> block of lines 177 to 243, in the order of the source: the request, the
  facets of the first item, \<^verbatim>\<open>pd.read_csv\<close>, the eight values, the assignment,
  \<^verbatim>\<open>df.to_csv\<close>. The result is the file written, or \<open>None\<close> when the response has no
  item (the file is not written then), or the exception raised inside the block.
\<close>

definition lookup_and_update ::
  "pandas \<Rightarrow> youtube_client \<Rightarrow> ustr \<Rightarrow> ustr \<Rightarrow> table \<Rightarrow> exn + table option" where
  "lookup_and_update pd youtube video_id video_url file =
     try_bind (youtube video_id) (\<lambda>video_response.
       case video_response of
         Some (it # others) \<Rightarrow>
           try_bind (item_facets it) (\<lambda>(video_info, video_content_details, video_stats).
           try_bind (read_csv pd file) (\<lambda>df.
           try_bind (field_mapping video_info video_content_details video_stats) (\<lambda>new.
           try_bind (loc_assign pd video_url new df) (\<lambda>df'.
           Inr (Some (to_csv pd df'))))))
       | _ \<Rightarrow> Inr None)"

text \<open>
  Lines 168 to 251, the body of the loop once \<open>video_url\<close> is read: the file and the log
  after it. Nothing raised inside the \<^verbatim>\<open>try\<close> block leaves it.
\<close>

definition enrich_video ::
  "pandas \<Rightarrow> youtube_client \<Rightarrow> ustr option \<Rightarrow> table \<times> log_entry list \<Rightarrow>
   table \<times> log_entry list" where
  "enrich_video pd youtube video_url st =
     (case st of (file, logged) \<Rightarrow>
        let log1 = logged @ (case video_url of
                               Some u \<Rightarrow> [Processing_video_URL u]
                             | None \<Rightarrow> [Encountered_None_URL]);
            (video_id, warned) = extract_video_id video_url;
            log2 = log1 @ warned
        in case video_id of
             None \<Rightarrow> (file, log2 @ [Failed_to_extract_ID video_url])
           | Some vid \<Rightarrow>
               if vid = [] then (file, log2 @ [Failed_to_extract_ID video_url])
               else
                 (case lookup_and_update pd youtube vid
                         (case video_url of Some u \<Rightarrow> u | None \<Rightarrow> []) file of
                    Inl e \<Rightarrow> (file, log2 @ [Error_processing vid e])
                  | Inr None \<Rightarrow> (file, log2 @ [No_video_items vid])
                  | Inr (Some file') \<Rightarrow> (file', log2)))"

text \<open>
  A row as \<^verbatim>\<open>csv.DictReader\<close> hands it out: a dict from the column names of the header
  to the cells of the line, with \<open>None\<close> for the columns a short line does not reach.

  One turn of \<^verbatim>\<open>for row in reader\<close>. \<^verbatim>\<open>row["url"]\<close> stands outside the
  \<^verbatim>\<open>try\<close> block: when the header has no such column its \<^verbatim>\<open>KeyError\<close> ends the run.
\<close>

type_synonym reader_row = "(string \<times> ustr option) list"

definition enrich_row ::
  "pandas \<Rightarrow> youtube_client \<Rightarrow> reader_row \<Rightarrow> table \<times> log_entry list \<Rightarrow>
   exn + (table \<times> log_entry list)" where
  "enrich_row pd youtube row st =
     (case map_of row ''url'' of
        None \<Rightarrow> Inl (KeyError ''url'')
      | Some video_url \<Rightarrow> Inr (enrich_video pd youtube video_url st))"

fun enrich_rows ::
  "pandas \<Rightarrow> youtube_client \<Rightarrow> reader_row list \<Rightarrow> table \<times> log_entry list \<Rightarrow>
   exn + (table \<times> log_entry list)" where
  "enrich_rows pd youtube [] st = Inr st"
| "enrich_rows pd youtube (row # rest) st =
     (case enrich_row pd youtube row st of
        Inl e \<Rightarrow> Inl e
      | Inr st' \<Rightarrow> enrich_rows pd youtube rest st')"

text \<open>
  \<^verbatim>\<open>extract_data_from_api\<close>. The reader reads the file lazily, through a buffer, while
  each successful lookup rewrites that same file; so the rows it hands out need not be
  the rows the file had when it was opened (after a rewrite it may go on in the middle
  of a line of the new file). The rows handed out during the run, in order, are
  therefore a parameter, \<open>reader_rows\<close>, and the function is the loop over them from
  the file as it was opened.
\<close>

definition extract_data_from_api ::
  "pandas \<Rightarrow> youtube_client \<Rightarrow> reader_row list \<Rightarrow> table \<Rightarrow> exn + (table \<times> log_entry list)" where
  "extract_data_from_api pd youtube reader_rows file =
     enrich_rows pd youtube reader_rows (file, [])"

section \<open>Notions of the specification\<close>

text \<open>A number below 100 in exactly two digits, and a number below 10000 in exactly four.\<close>

definition two_digits :: "nat \<Rightarrow> ustr" where
  "two_digits k = [48 + k div 10, 48 + k mod 10]"

definition four_digits :: "nat \<Rightarrow> ustr" where
  "four_digits k = [48 + k div 1000, 48 + k div 100 mod 10, 48 + k div 10 mod 10, 48 + k mod 10]"

text \<open>
  Reading a rendered duration back, as the round trip of the specification does: the
  three fields between the colons are decimal numerals, and the result is
  \<open>hours * 3600 + minutes * 60 + seconds\<close>.
\<close>

definition read_digits :: "ustr \<Rightarrow> nat option" where
  "read_digits s = (if s \<noteq> [] \<and> list_all is_digit s then Some (digits_val s) else None)"

definition parse_hms :: "ustr \<Rightarrow> int option" where
  "parse_hms s =
     (case map read_digits (split_on 58 s) of
        [Some hours, Some minutes, Some seconds] \<Rightarrow>
          Some (int hours * 3600 + int minutes * 60 + int seconds)
      | _ \<Rightarrow> None)"

text \<open>
  The wire representation of an upload timestamp, \<^verbatim>\<open>YYYY-MM-DDTHH:MM:SSZ\<close>, and the
  form \<^verbatim>\<open>YYYY-MM-DD HH:MM:SS\<close> of the same six numbers.
\<close>

definition iso_wire :: "nat \<Rightarrow> nat \<Rightarrow> nat \<Rightarrow> nat \<Rightarrow> nat \<Rightarrow> nat \<Rightarrow> ustr" where
  "iso_wire y mo d h mi s =
     four_digits y @ [45] @ two_digits mo @ [45] @ two_digits d @ [84] @
     two_digits h @ [58] @ two_digits mi @ [58] @ two_digits s @ [90]"

definition iso_plain :: "nat \<Rightarrow> nat \<Rightarrow> nat \<Rightarrow> nat \<Rightarrow> nat \<Rightarrow> nat \<Rightarrow> ustr" where
  "iso_plain y mo d h mi s =
     four_digits y @ [45] @ two_digits mo @ [45] @ two_digits d @ [32] @
     two_digits h @ [58] @ two_digits mi @ [58] @ two_digits s"


text \<open>
  The URLs of the rows the Enricher has started on, in order (\<open>None\<close> for a row without
  one): at the start of each turn of its loop either \<open>Processing_video_URL\<close> or
  \<open>Encountered_None_URL\<close> is logged, and nowhere else.
\<close>

fun started :: "log_entry list \<Rightarrow> ustr option list" where
  "started [] = []"
| "started (Processing_video_URL u # l) = Some u # started l"
| "started (Encountered_None_URL # l) = None # started l"
| "started (e # l) = started l"

section \<open>Example inputs\<close>

text \<open>
  An entry of a watch history: the title link, the channel link after it and the watch
  time after the channel link, written with a narrow no-break space (U+202F) before
  \<^verbatim>\<open>PM\<close>.
\<close>

definition ex_raw_time :: ustr where
  "ex_raw_time = asc ''Jan 5, 2024, 3:45:12'' @ [8239] @ asc ''PM PST''"

definition ex_channel :: anchor where
  "ex_channel =
     Anchor (asc ''Some Channel'') (Some (asc ''https://www.youtube.com/channel/UC1'')) None
       (Some ex_raw_time)"

definition ex_title_link :: anchor where
  "ex_title_link =
     Anchor (asc ''A video'') (Some (asc ''https://www.youtube.com/watch?v=abc123''))
       (Some ex_channel) None"

definition ex_watched :: container where
  "ex_watched = Some ex_title_link"


text \<open>An entry whose title text is the watch URL itself.\<close>

definition ex_url_title :: container where
  "ex_url_title =
     Some (Anchor (asc ''https://www.youtube.com/watch?v=abc123'')
             (Some (asc ''https://www.youtube.com/watch?v=abc123'')) None None)"

text \<open>
  An entry with a title link and no channel link of its own, followed in the document
  by another entry: \<^verbatim>\<open>find_next("a")\<close> from the title link is the title link of
  that next entry.
\<close>

definition ex_title_then_entry :: container where
  "ex_title_then_entry =
     Some (Anchor (asc ''A removed video'') (Some (asc ''https://www.youtube.com/watch?v=gone''))
             (Some ex_title_link) None)"

text \<open>
  A table of values as pandas holds it after reading a file the Extractor wrote: three
  entries, the first and the third of the same video, the second with a shortened URL;
  the cells the Extractor left empty are missing. A service that knows that one video,
  and a service that fails on every request.
\<close>

definition history_frame_row :: "cell \<Rightarrow> ustr \<Rightarrow> ustr \<Rightarrow> frame_row" where
  "history_frame_row title url date_time =
     [(''title'', title), (''url'', Text url), (''video_duration'', Missing),
      (''channel_name'', Missing), (''channel_url'', Missing), (''date_time'', Text date_time),
      (''video_date_upload'', Missing), (''video_views'', Missing), (''video_likes'', Missing),
      (''video_dislikes'', Missing), (''video_comment_count'', Missing),
      (''video_description'', Missing), (''video_tags'', Missing)]"


definition ex_item :: video_item where
  "ex_item =
     \<lparr>snippet = Some \<lparr>publishedAt = Some (asc ''2017-11-13T06:06:22Z''),
                       description = Some (asc ''About''), tags = None\<rparr>,
      contentDetails = Some \<lparr>duration = Some (asc ''PT1H2M3S'')\<rparr>,
      statistics = Some \<lparr>viewCount = Some (asc ''12''), likeCount = None,
                          dislikeCount = None, commentCount = None\<rparr>\<rparr>"

text \<open>The eight values mapped from that item.\<close>

definition ex_values :: frame_row where
  "ex_values =
     zip metadata_columns
       [Text (asc ''2017-11-13 06:06:22''), Whole 12, Whole 0, Whole 0, Whole 0,
        Text (asc ''About''), Text [], Text (asc ''01:02:03'')]"

definition ex_client :: youtube_client where
  "ex_client video_id =
     (if video_id = asc ''abc123'' then Inr (Some [ex_item]) else Inl (ServiceError 404))"

definition ex_failing_client :: youtube_client where
  "ex_failing_client video_id = Inl (ServiceError 503)"

text \<open>
  A file the Extractor wrote with two entries: a video, and an entry of another site of
  the platform whose title is \<^verbatim>\<open>NA\<close>. Then the table pandas reads from it with its
  defaults: the cell \<^verbatim>\<open>NA\<close> and the empty cells are missing.
\<close>

definition history_row :: "ustr \<Rightarrow> ustr \<Rightarrow> ustr \<Rightarrow> row" where
  "history_row title url date_time =
     [(''title'', title), (''url'', url), (''video_duration'', []), (''channel_name'', []),
      (''channel_url'', []), (''date_time'', date_time), (''video_date_upload'', []),
      (''video_views'', []), (''video_likes'', []), (''video_dislikes'', []),
      (''video_comment_count'', []), (''video_description'', []), (''video_tags'', [])]"

definition ex_na_history :: table where
  "ex_na_history =
     \<lparr>header = fieldnames,
      body = [history_row (asc ''A video'') (asc ''https://www.youtube.com/watch?v=abc123'')
                (asc ''Jan 5, 2024''),
              history_row (asc ''NA'') (asc ''https://music.youtube.com/watch?v=xyz'')
                (asc ''Jan 6, 2024'')]\<rparr>"

definition ex_na_frame :: dataframe where
  "ex_na_frame =
     \<lparr>columns = fieldnames,
      frame_rows =
        [history_frame_row (Text (asc ''A video'')) (asc ''https://www.youtube.com/watch?v=abc123'')
           (asc ''Jan 5, 2024''),
         history_frame_row Missing (asc ''https://music.youtube.com/watch?v=xyz'')
           (asc ''Jan 6, 2024'')]\<rparr>"

text \<open>
  Rows a reader hands out: the rows of a table as they stand in the file, and a short
  line that does not reach the \<^verbatim>\<open>url\<close> column.
\<close>

definition as_read :: "row \<Rightarrow> reader_row" where
  "as_read r = map (\<lambda>(k, v). (k, Some v)) r"

definition ex_short_line :: reader_row where
  "ex_short_line = (''title'', Some (asc ''06:22'')) # map (\<lambda>k. (k, None)) (tl fieldnames)"

definition ex_reader_rows :: "reader_row list" where
  "ex_reader_rows = map as_read (body ex_na_history) @ [ex_short_line]"

section \<open>Decimal numerals: lemmas\<close>

lemma str_nat_small: "n < 10 \<Longrightarrow> str_nat n = [48 + n]"
  by (simp add: str_nat.simps)

lemma str_nat_step: "10 \<le> n \<Longrightarrow> str_nat n = str_nat (n div 10) @ [48 + n mod 10]"
  by (subst str_nat.simps) simp

lemma str_nat_two: "10 \<le> n \<Longrightarrow> n < 100 \<Longrightarrow> str_nat n = [48 + n div 10, 48 + n mod 10]"
  by (simp add: str_nat_step str_nat_small)

lemma zfill_two_digits: "n < 100 \<Longrightarrow> zfill 2 (str_nat n) = two_digits n"
proof (cases "n < 10")
  case True
  then show ?thesis by (simp add: zfill_def two_digits_def str_nat_small)
next
  case False
  assume "n < 100"
  with False show ?thesis by (simp add: zfill_def two_digits_def str_nat_two)
qed

lemma fmt_02d_two_digits: "0 \<le> i \<Longrightarrow> i < 100 \<Longrightarrow> fmt_02d i = two_digits (nat i)"
  by (simp add: fmt_02d_def zfill_two_digits)

lemma str_nat_digits: "list_all is_digit (str_nat n)"
proof (induction n rule: str_nat.induct)
  case (1 n)
  show ?case
  proof (cases "n < 10")
    case True
    then show ?thesis by (simp add: str_nat_small is_digit_def)
  next
    case False
    then have "list_all is_digit (str_nat (n div 10))" using 1 by simp
    moreover have "is_digit (48 + n mod 10)" by (simp add: is_digit_def)
    ultimately show ?thesis using False by (simp add: str_nat_step)
  qed
qed

lemma str_nat_nonempty: "str_nat n \<noteq> []"
  by (subst str_nat.simps) simp

lemma digits_val_snoc: "digits_val (ds @ [c]) = 10 * digits_val ds + (c - 48)"
  by (simp add: digits_val_def)

lemma digits_val_str_nat: "digits_val (str_nat n) = n"
proof (induction n rule: str_nat.induct)
  case (1 n)
  show ?case
  proof (cases "n < 10")
    case True
    then show ?thesis by (simp add: str_nat_small digits_val_def)
  next
    case False
    then have "digits_val (str_nat (n div 10)) = n div 10" using 1 by simp
    then show ?thesis using False by (simp add: str_nat_step digits_val_snoc)
  qed
qed

lemma foldl_zeros: "foldl (\<lambda>a c. 10 * a + (c - 48)) 0 (replicate k (48::nat)) = (0::nat)"
  by (induction k) simp_all

lemma digits_val_zfill: "digits_val (zfill w ds) = digits_val ds"
  by (simp add: zfill_def digits_val_def foldl_zeros)

lemma zeros_digits: "list_all is_digit (replicate k 48)"
  by (induction k) (simp_all add: is_digit_def)

lemma fmt_02d_read: "0 \<le> i \<Longrightarrow> read_digits (fmt_02d i) = Some (nat i)"
  by (simp add: read_digits_def fmt_02d_def zfill_def str_nat_nonempty str_nat_digits
      digits_val_zfill[unfolded zfill_def] digits_val_str_nat zeros_digits)

lemma digit_not_colon: "list_all is_digit s \<Longrightarrow> 58 \<notin> set s"
  by (auto simp: list_all_iff is_digit_def)

lemma fmt_02d_no_colon: "0 \<le> i \<Longrightarrow> 58 \<notin> set (fmt_02d i)"
  by (simp add: fmt_02d_def zfill_def digit_not_colon[OF str_nat_digits])

lemma split_on_absent: "sep \<notin> set s \<Longrightarrow> split_on sep s = [s]"
  by (induction s) auto

lemma split_on_first: "sep \<notin> set a \<Longrightarrow> split_on sep (a @ sep # b) = a # split_on sep b"
  by (induction a) auto

lemma hms_sum: "(n::int) div 3600 * 3600 + n mod 3600 div 60 * 60 + n mod 60 = n"
proof -
  have r: "n mod 3600 mod 60 = n mod 60" by (rule mod_mod_cancel) simp
  have b: "n mod 3600 div 60 * 60 + n mod 60 = n mod 3600"
    using div_mult_mod_eq[of "n mod 3600" 60] by (simp only: r)
  have "n div 3600 * 3600 + n mod 3600 div 60 * 60 + n mod 60 =
        n div 3600 * 3600 + (n mod 3600 div 60 * 60 + n mod 60)"
    by (simp only: add.assoc)
  also have "\<dots> = n div 3600 * 3600 + n mod 3600" by (simp only: b)
  also have "\<dots> = n" by (rule div_mult_mod_eq)
  finally show ?thesis .
qed

section \<open>Durations: claims C7 and C8\<close>

lemmas duration_eval =
  clean_duration_time_def parse_duration_def match_period_def component_def time_part_def
  at_end_def is_digit_def digits_val_def format_hms_def fmt_02d_def zfill_def str_nat.simps
  asc_def

text \<open>
  Claim C7. \<^verbatim>\<open>clean_duration_time('PT1H2M3S')\<close> is \<^verbatim>\<open>'01:02:03'\<close> and
  \<^verbatim>\<open>clean_duration_time('PT15M25S')\<close> is \<^verbatim>\<open>'00:15:25'\<close>. In general, when the
  duration parses to a total of \<open>n\<close> seconds that is not negative and stays below 100
  hours (so every duration up to 99 hours, and on to 99:59:59), the result is the hours
  \<open>n div 3600\<close>, the minutes \<open>(n mod 3600) div 60\<close> and the seconds \<open>n mod 60\<close>, each in
  exactly two digits, joined by colons.
\<close>

theorem clean_duration_time_hms:
  "clean_duration_time (asc ''PT1H2M3S'') = Inr (asc ''01:02:03'') \<and>
   clean_duration_time (asc ''PT15M25S'') = Inr (asc ''00:15:25'') \<and>
   (\<forall>d n. parse_duration d = Inr n \<and> 0 \<le> n \<and> n < 100 * 3600 \<longrightarrow>
      clean_duration_time d =
        Inr (two_digits (nat (n div 3600)) @ [58] @ two_digits (nat (n mod 3600 div 60)) @ [58] @
             two_digits (nat (n mod 60))))"
proof (intro conjI allI impI)
  show "clean_duration_time (asc ''PT1H2M3S'') = Inr (asc ''01:02:03'')"
    by (simp add: duration_eval)
  show "clean_duration_time (asc ''PT15M25S'') = Inr (asc ''00:15:25'')"
    by (simp add: duration_eval)
next
  fix d n
  assume a: "parse_duration d = Inr n \<and> 0 \<le> n \<and> n < 100 * 3600"
  then have n: "0 \<le> n" "n < 360000" by simp_all
  have "n div 3600 \<le> 359999 div 3600" using n by (intro zdiv_mono1) simp_all
  then have h: "0 \<le> n div 3600" "n div 3600 < 100"
    using n by (simp_all add: pos_imp_zdiv_nonneg_iff)
  have "n mod 3600 \<le> 3599" using pos_mod_bound[of 3600 n] by simp
  then have "n mod 3600 div 60 \<le> 3599 div 60" by (intro zdiv_mono1) simp_all
  then have m: "0 \<le> n mod 3600 div 60" "n mod 3600 div 60 < 100"
    by (simp_all add: pos_imp_zdiv_nonneg_iff)
  have s: "0 \<le> n mod 60" "n mod 60 < 100"
    using pos_mod_bound[of 60 n] by simp_all
  show "clean_duration_time d =
        Inr (two_digits (nat (n div 3600)) @ [58] @ two_digits (nat (n mod 3600 div 60)) @ [58] @
             two_digits (nat (n mod 60)))"
    using a h m s by (simp add: clean_duration_time_def format_hms_def Let_def fmt_02d_two_digits)
qed

theorem clean_duration_time_hms_witness:
  "parse_duration (asc ''P4DT3H59M59S'') = Inr 359999 \<and>
   clean_duration_time (asc ''P4DT3H59M59S'') = Inr (asc ''99:59:59'')"
proof -
  have p: "parse_duration (asc ''P4DT3H59M59S'') = Inr 359999"
    by (simp add: duration_eval)
  have g: "\<And>d n. parse_duration d = Inr n \<and> 0 \<le> n \<and> n < 100 * 3600 \<Longrightarrow>
      clean_duration_time d =
        Inr (two_digits (nat (n div 3600)) @ [58] @ two_digits (nat (n mod 3600 div 60)) @ [58] @
             two_digits (nat (n mod 60)))"
    using clean_duration_time_hms by blast
  have "clean_duration_time (asc ''P4DT3H59M59S'') =
        Inr (two_digits (nat (359999 div 3600)) @ [58] @ two_digits (nat (359999 mod 3600 div 60)) @
             [58] @ two_digits (nat (359999 mod 60)))"
    by (rule g) (simp add: p)
  then show ?thesis using p by (simp add: two_digits_def asc_def)
qed

text \<open>
  Claim C8. Round trip: for every total of seconds \<open>n \<ge> 0\<close>, with no upper bound,
  rendering \<open>n\<close> as \<^verbatim>\<open>HH:MM:SS\<close> (lines 280 to 286) and reading the rendering back as
  \<open>hours * 3600 + minutes * 60 + seconds\<close> gives \<open>n\<close> again.
\<close>

theorem format_hms_round_trip: "parse_hms (format_hms (int n)) = Some (int n)"
proof -
  define h where "h = int n div 3600"
  define m where "m = int n mod 3600 div 60"
  define s where "s = int n mod 60"
  have nonneg: "0 \<le> h" "0 \<le> m" "0 \<le> s"
    by (simp_all add: h_def m_def s_def pos_imp_zdiv_nonneg_iff)
  have fmt: "format_hms (int n) = fmt_02d h @ 58 # fmt_02d m @ 58 # fmt_02d s"
    by (simp add: format_hms_def h_def m_def s_def Let_def)
  have split: "split_on 58 (format_hms (int n)) = [fmt_02d h, fmt_02d m, fmt_02d s]"
    using nonneg by (simp add: fmt split_on_first split_on_absent fmt_02d_no_colon)
  have "parse_hms (format_hms (int n)) = Some (h * 3600 + m * 60 + s)"
    using nonneg by (simp add: parse_hms_def split fmt_02d_read)
  moreover have "h * 3600 + m * 60 + s = int n"
    unfolding h_def m_def s_def by (rule hms_sum)
  ultimately show ?thesis by simp
qed

theorem format_hms_round_trip_witness:
  "format_hms 360000 = asc ''100:00:00'' \<and> parse_hms (asc ''100:00:00'') = Some 360000"
proof -
  have f: "format_hms 360000 = asc ''100:00:00''" by (simp add: duration_eval)
  show ?thesis using format_hms_round_trip[of 360000] f by simp
qed

section \<open>Upload timestamps: claim C6\<close>

lemma two_digits_val: "k < 100 \<Longrightarrow> digits_val (two_digits k) = k"
  by (simp add: two_digits_def digits_val_def)

lemma is_digit_small: "m < 10 \<Longrightarrow> is_digit (48 + m)"
  by (simp add: is_digit_def)

lemma is_digit_mod: "is_digit (48 + m mod 10)"
  by (simp add: is_digit_def)

lemma two_digits_digits: "k < 100 \<Longrightarrow> list_all is_digit (two_digits k)"
  by (simp add: two_digits_def is_digit_small is_digit_mod)

lemma four_digits_val: "digits_val (four_digits k) = k"
proof -
  have a: "k div 10 mod 10 + 10 * (k div 100) = k div 10"
    using div_mult_mod_eq[of "k div 10" 10] by (simp add: div_mult2_eq[symmetric] mult.commute)
  have b: "k div 100 mod 10 + 10 * (k div 1000) = k div 100"
    using div_mult_mod_eq[of "k div 100" 10] by (simp add: div_mult2_eq[symmetric] mult.commute)
  have "digits_val (four_digits k) =
        10 * (10 * (10 * (k div 1000) + k div 100 mod 10) + k div 10 mod 10) + k mod 10"
    by (simp add: four_digits_def digits_val_def)
  also have "\<dots> = 10 * (10 * (k div 100) + k div 10 mod 10) + k mod 10"
    using b by (simp add: add.commute)
  also have "\<dots> = 10 * (k div 10) + k mod 10"
    using a by (simp add: add.commute)
  also have "\<dots> = k" by simp
  finally show ?thesis .
qed

lemma four_digits_digits: "k < 10000 \<Longrightarrow> list_all is_digit (four_digits k)"
  by (simp add: four_digits_def is_digit_small is_digit_mod)

lemma str_nat_three:
  "100 \<le> n \<Longrightarrow> n < 1000 \<Longrightarrow> str_nat n = [48 + n div 100, 48 + n div 10 mod 10, 48 + n mod 10]"
proof -
  assume a: "100 \<le> n" "n < 1000"
  then have "10 \<le> n div 10" "n div 10 < 100" by simp_all
  then have "str_nat (n div 10) = [48 + n div 10 div 10, 48 + n div 10 mod 10]"
    by (rule str_nat_two)
  moreover have "n div 10 div 10 = n div 100" by (simp add: div_mult2_eq[symmetric])
  ultimately show ?thesis using a by (simp add: str_nat_step)
qed

lemma zfill_four_digits: "1000 \<le> n \<Longrightarrow> n < 10000 \<Longrightarrow> zfill 4 (str_nat n) = four_digits n"
proof -
  assume a: "1000 \<le> n" "n < 10000"
  then have "100 \<le> n div 10" "n div 10 < 1000" by simp_all
  then have "str_nat (n div 10) =
             [48 + n div 10 div 100, 48 + n div 10 div 10 mod 10, 48 + n div 10 mod 10]"
    by (rule str_nat_three)
  moreover have "n div 10 div 100 = n div 1000" "n div 10 div 10 = n div 100"
    by (simp_all add: div_mult2_eq[symmetric])
  ultimately show ?thesis using a by (simp add: str_nat_step zfill_def four_digits_def)
qed

lemma iso_date_wire:
  "y < 10000 \<Longrightarrow> mo < 100 \<Longrightarrow> d < 100 \<Longrightarrow>
   iso_date (four_digits y @ [45] @ two_digits mo @ [45] @ two_digits d @ rest) =
     Some ((y, mo, d), rest)"
  using four_digits_val[of y] two_digits_val[of mo] two_digits_val[of d]
    four_digits_digits[of y] two_digits_digits[of mo] two_digits_digits[of d]
  by (simp add: iso_date_def four_digits_def two_digits_def)

lemma iso_time_wire:
  "h < 100 \<Longrightarrow> mi < 100 \<Longrightarrow> s < 100 \<Longrightarrow>
   iso_time (two_digits h @ [58] @ two_digits mi @ [58] @ two_digits s @ rest) =
     Some ((h, mi, s), rest)"
  using two_digits_val[of h] two_digits_val[of mi] two_digits_val[of s]
    two_digits_digits[of h] two_digits_digits[of mi] two_digits_digits[of s]
  by (simp add: iso_time_def two_digits_def)

lemma strftime_plain:
  "1000 \<le> y \<Longrightarrow> y < 10000 \<Longrightarrow> mo < 100 \<Longrightarrow> d < 100 \<Longrightarrow> h < 100 \<Longrightarrow> mi < 100 \<Longrightarrow> s < 100 \<Longrightarrow>
   strftime \<lparr>dt_year = y, dt_month = mo, dt_day = d, dt_hour = h, dt_minute = mi, dt_second = s\<rparr> =
     iso_plain y mo d h mi s"
  by (simp add: strftime_def iso_plain_def zfill_four_digits zfill_two_digits)

lemma days_in_month_le: "days_in_month y mo \<le> 31"
  by (simp add: days_in_month_def)

lemmas datetime_eval =
  process_datetime_def fromisoformat_def iso_date_def iso_time_def iso_fraction_def iso_zone_def
  days_in_month_def is_leap_def strftime_def is_digit_def digits_val_def zfill_def str_nat.simps
  asc_def

text \<open>
  Claim C6. \<^verbatim>\<open>process_datetime('2017-11-13T06:06:22Z')\<close> is
  \<^verbatim>\<open>'2017-11-13 06:06:22'\<close>. In general, for every valid date and time of day with a
  year of four digits (1000 to 9999), the wire representation
  \<^verbatim>\<open>YYYY-MM-DDTHH:MM:SSZ\<close> is parsed and printed as \<^verbatim>\<open>YYYY-MM-DD HH:MM:SS\<close>
  with the same six numbers.
\<close>

theorem process_datetime_wire:
  "process_datetime (asc ''2017-11-13T06:06:22Z'') = Inr (asc ''2017-11-13 06:06:22'') \<and>
   (\<forall>y mo d h mi s.
      1000 \<le> y \<and> y \<le> 9999 \<and> 1 \<le> mo \<and> mo \<le> 12 \<and> 1 \<le> d \<and> d \<le> days_in_month y mo \<and>
      h < 24 \<and> mi < 60 \<and> s < 60 \<longrightarrow>
      process_datetime (iso_wire y mo d h mi s) = Inr (iso_plain y mo d h mi s))"
proof (intro conjI allI impI)
  show "process_datetime (asc ''2017-11-13T06:06:22Z'') = Inr (asc ''2017-11-13 06:06:22'')"
    by (simp add: datetime_eval)
next
  fix y mo d h mi s :: nat
  assume a: "1000 \<le> y \<and> y \<le> 9999 \<and> 1 \<le> mo \<and> mo \<le> 12 \<and> 1 \<le> d \<and> d \<le> days_in_month y mo \<and>
      h < 24 \<and> mi < 60 \<and> s < 60"
  have d31: "d \<le> 31" using a days_in_month_le[of y mo] by simp
  have b: "y < 10000" "mo < 100" "d < 100" "h < 100" "mi < 100" "s < 100"
    using a d31 by simp_all
  have w: "iso_wire y mo d h mi s =
           four_digits y @ [45] @ two_digits mo @ [45] @ two_digits d @
           ([84] @ two_digits h @ [58] @ two_digits mi @ [58] @ two_digits s @ [90])"
    by (simp add: iso_wire_def)
  have ne: "iso_wire y mo d h mi s \<noteq> []" by (simp add: iso_wire_def four_digits_def)
  have dt: "iso_date (iso_wire y mo d h mi s) =
            Some ((y, mo, d), [84] @ two_digits h @ [58] @ two_digits mi @ [58] @ two_digits s @ [90])"
    unfolding w using b(1-3) by (rule iso_date_wire)
  have tm: "iso_time (two_digits h @ [58] @ two_digits mi @ [58] @ two_digits s @ [90]) =
            Some ((h, mi, s), [90])"
    using b(4-6) by (rule iso_time_wire)
  have "fromisoformat (iso_wire y mo d h mi s) =
        Inr \<lparr>dt_year = y, dt_month = mo, dt_day = d, dt_hour = h, dt_minute = mi, dt_second = s\<rparr>"
    using a ne dt tm by (simp add: fromisoformat_def iso_fraction_def iso_zone_def)
  then show "process_datetime (iso_wire y mo d h mi s) = Inr (iso_plain y mo d h mi s)"
    using a b by (simp add: process_datetime_def strftime_plain)
qed

theorem process_datetime_wire_witness:
  "iso_wire 2020 4 10 5 36 2 = asc ''2020-04-10T05:36:02Z'' \<and>
   process_datetime (asc ''2020-04-10T05:36:02Z'') = Inr (asc ''2020-04-10 05:36:02'')"
proof -
  have w: "iso_wire 2020 4 10 5 36 2 = asc ''2020-04-10T05:36:02Z''"
    by (simp add: iso_wire_def four_digits_def two_digits_def asc_def)
  have p: "iso_plain 2020 4 10 5 36 2 = asc ''2020-04-10 05:36:02''"
    by (simp add: iso_plain_def four_digits_def two_digits_def asc_def)
  have g: "\<And>y mo d h mi s.
      1000 \<le> y \<and> y \<le> 9999 \<and> 1 \<le> mo \<and> mo \<le> 12 \<and> 1 \<le> d \<and> d \<le> days_in_month y mo \<and>
      h < 24 \<and> mi < 60 \<and> s < 60 \<Longrightarrow>
      process_datetime (iso_wire y mo d h mi s) = Inr (iso_plain y mo d h mi s)"
    using process_datetime_wire by blast
  have "process_datetime (iso_wire 2020 4 10 5 36 2) = Inr (iso_plain 2020 4 10 5 36 2)"
    by (rule g) (simp add: days_in_month_def)
  then show ?thesis using w p by simp
qed

section \<open>Watch timestamps: claim C9\<close>

lemma replace_Nil: "old \<noteq> [] \<Longrightarrow> replace old new [] = []"
  by (simp add: replace.simps)

lemma replace_hit:
  "old \<noteq> [] \<Longrightarrow> startswith (c # cs) old \<Longrightarrow>
   replace old new (c # cs) = new @ replace old new (drop (length old) (c # cs))"
  by (subst replace.simps) simp

lemma replace_miss:
  "old \<noteq> [] \<Longrightarrow> \<not> startswith (c # cs) old \<Longrightarrow>
   replace old new (c # cs) = c # replace old new cs"
  by (subst replace.simps) simp

lemma contains_suffix2: "contains [a, b] (t @ [a, b])"
  by (induction t) simp_all

lemma startswith_boundary2:
  "a \<noteq> b \<Longrightarrow> \<not> contains [a, b] (x # xs) \<Longrightarrow> \<not> startswith (x # xs @ [a, b]) [a, b]"
  by (cases xs) auto

lemma replace_suffix2:
  "a \<noteq> b \<Longrightarrow> \<not> contains [a, b] t \<Longrightarrow> replace [a, b] new (t @ [a, b]) = t @ new"
proof (induction t)
  case Nil
  then show ?case by (simp add: replace_hit replace_Nil)
next
  case (Cons x xs)
  have miss: "\<not> startswith ((x # xs) @ [a, b]) [a, b]"
    using startswith_boundary2[OF Cons.prems] by simp
  have rest: "\<not> contains [a, b] xs" using Cons.prems(2) by simp
  have "replace [a, b] new ((x # xs) @ [a, b]) = x # replace [a, b] new (xs @ [a, b])"
    using miss by (simp add: replace_miss)
  then show ?case using Cons.IH[OF Cons.prems(1) rest] by simp
qed

lemma not_contains_other2:
  "\<not> contains [p, m] t \<Longrightarrow> a \<noteq> p \<Longrightarrow> a \<noteq> m \<Longrightarrow> \<not> contains [p, m] (t @ [a, m])"
proof (induction t)
  case Nil
  then show ?case by simp
next
  case (Cons x xs)
  then show ?case by (cases xs) auto
qed

lemma filter_ascii_marker:
  "\<forall>x\<in>set t. x < 128 \<Longrightarrow> 128 \<le> c \<Longrightarrow> a < 128 \<Longrightarrow> b < 128 \<Longrightarrow>
   filter (\<lambda>char. char < 128) (t @ [c] @ [a, b]) = t @ [a, b :: nat]"
  by (simp add: filter_id_conv)

text \<open>
  Claim C9. For every raw timestamp made of an ASCII text \<open>t\<close> (the time), one
  character outside ASCII (the space) and the marker \<^verbatim>\<open>PM\<close> at the end,
  \<^verbatim>\<open>clean_date_time\<close> returns \<open>t\<close>, exactly one ASCII space and \<^verbatim>\<open>PM\<close>; the same
  holds for \<^verbatim>\<open>AM\<close>. The time itself holds no marker: no \<^verbatim>\<open>PM\<close> in it, and for the
  \<^verbatim>\<open>AM\<close> case no \<^verbatim>\<open>AM\<close> either.
\<close>

theorem clean_date_time_marker:
  "(\<forall>t c. (\<forall>x\<in>set t. x < 128) \<and> 128 \<le> c \<and> \<not> contains (asc ''PM'') t \<longrightarrow>
      clean_date_time (t @ [c] @ asc ''PM'') = t @ asc '' PM'') \<and>
   (\<forall>t c. (\<forall>x\<in>set t. x < 128) \<and> 128 \<le> c \<and> \<not> contains (asc ''PM'') t \<and>
      \<not> contains (asc ''AM'') t \<longrightarrow>
      clean_date_time (t @ [c] @ asc ''AM'') = t @ asc '' AM'')"
proof (intro conjI allI impI)
  fix t :: ustr and c :: uchar
  assume a: "(\<forall>x\<in>set t. x < 128) \<and> 128 \<le> c \<and> \<not> contains (asc ''PM'') t"
  then have np: "\<not> contains [80, 77] t" by (simp add: asc_def)
  have f: "filter (\<lambda>char. char < 128) (t @ [c] @ [80, 77]) = t @ [80, 77]"
    using a by (intro filter_ascii_marker) simp_all
  have r: "replace [80, 77] [32, 80, 77] (t @ [80, 77]) = t @ [32, 80, 77]"
    using np by (intro replace_suffix2) simp_all
  show "clean_date_time (t @ [c] @ asc ''PM'') = t @ asc '' PM''"
    using f r contains_suffix2[of 80 77 t] by (simp add: clean_date_time_def asc_def)
next
  fix t :: ustr and c :: uchar
  assume a: "(\<forall>x\<in>set t. x < 128) \<and> 128 \<le> c \<and> \<not> contains (asc ''PM'') t \<and>
      \<not> contains (asc ''AM'') t"
  then have np: "\<not> contains [80, 77] t" and na: "\<not> contains [65, 77] t"
    by (simp_all add: asc_def)
  have f: "filter (\<lambda>char. char < 128) (t @ [c] @ [65, 77]) = t @ [65, 77]"
    using a by (intro filter_ascii_marker) simp_all
  have n: "\<not> contains [80, 77] (t @ [65, 77])"
    using np by (intro not_contains_other2) simp_all
  have r: "replace [65, 77] [32, 65, 77] (t @ [65, 77]) = t @ [32, 65, 77]"
    using na by (intro replace_suffix2) simp_all
  show "clean_date_time (t @ [c] @ asc ''AM'') = t @ asc '' AM''"
    using f r n by (simp add: clean_date_time_def asc_def)
qed

theorem clean_date_time_marker_witness:
  "clean_date_time (asc ''3:45:12'' @ [8239] @ asc ''PM'') = asc ''3:45:12 PM'' \<and>
   clean_date_time (asc ''11:05:00'' @ [8239] @ asc ''AM'') = asc ''11:05:00 AM''"
proof -
  have g1: "\<And>t c. (\<forall>x\<in>set t. x < 128) \<and> 128 \<le> c \<and> \<not> contains (asc ''PM'') t \<Longrightarrow>
      clean_date_time (t @ [c] @ asc ''PM'') = t @ asc '' PM''"
    using clean_date_time_marker by blast
  have g2: "\<And>t c. (\<forall>x\<in>set t. x < 128) \<and> 128 \<le> c \<and> \<not> contains (asc ''PM'') t \<and>
      \<not> contains (asc ''AM'') t \<Longrightarrow>
      clean_date_time (t @ [c] @ asc ''AM'') = t @ asc '' AM''"
    using clean_date_time_marker by blast
  have "clean_date_time (asc ''3:45:12'' @ [8239] @ asc ''PM'') = asc ''3:45:12'' @ asc '' PM''"
    by (rule g1) (simp add: asc_def)
  moreover have "clean_date_time (asc ''11:05:00'' @ [8239] @ asc ''AM'') = asc ''11:05:00'' @ asc '' AM''"
    by (rule g2) (simp add: asc_def)
  ultimately show ?thesis by (simp add: asc_def)
qed

section \<open>The History Extractor: claims C10, C1 and C2\<close>

lemma video_dict_keys: "map fst (video_dict title url channel_name channel_url date_time) = fieldnames"
  by (simp add: video_dict_def fieldnames_def)

lemma extract_video_keys: "extract_video v = Inr (Some d, l) \<Longrightarrow> map fst d = fieldnames"
  by (auto simp: extract_video_def Let_def video_dict_keys split: option.splits if_splits)

lemma scan_videos_keys:
  "scan_videos vs (acc, lg) = Inr (vd, lg') \<Longrightarrow> \<forall>d\<in>set acc. map fst d = fieldnames \<Longrightarrow>
   \<forall>d\<in>set vd. map fst d = fieldnames"
proof (induction vs arbitrary: acc lg)
  case Nil
  then show ?case by simp
next
  case (Cons v vs)
  from Cons.prems(1) obtain r l where
    ev: "extract_video v = Inr (r, l)" and
    rest: "scan_videos vs (acc @ (case r of None \<Rightarrow> [] | Some d \<Rightarrow> [d]), lg @ l) = Inr (vd, lg')"
    by (auto split: sum.splits prod.splits)
  have "\<forall>d\<in>set (acc @ (case r of None \<Rightarrow> [] | Some d \<Rightarrow> [d])). map fst d = fieldnames"
    using Cons.prems(2) ev by (auto split: option.splits dest: extract_video_keys)
  with rest show ?case by (rule Cons.IH)
qed

lemma writerow_keys: "map fst d = names \<Longrightarrow> \<exists>r. writerow names d = Inr r \<and> map fst r = names"
  by (auto simp: writerow_def list_ex_iff comp_def)

lemma writerows_keys:
  "\<forall>d\<in>set ds. map fst d = names \<Longrightarrow>
   \<exists>rs. writerows names ds = Inr rs \<and> length rs = length ds \<and> (\<forall>r\<in>set rs. map fst r = names)"
proof (induction ds)
  case Nil
  then show ?case by simp
next
  case (Cons d ds)
  then obtain r where r: "writerow names d = Inr r" "map fst r = names"
    using writerow_keys[of d names] by auto
  from Cons obtain rs where
    rs: "writerows names ds = Inr rs" "length rs = length ds" "\<forall>r\<in>set rs. map fst r = names"
    by auto
  show ?case using r rs by simp
qed

text \<open>
  Claim C10. Whenever the loop over the containers ends without an exception, every
  record of \<^verbatim>\<open>videos_data\<close> has exactly the thirteen keys, in the order of the
  header, and the file is written: its header is the thirteen column names in that
  order, with \<^verbatim>\<open>video_duration\<close> third, between \<^verbatim>\<open>url\<close> and \<^verbatim>\<open>channel_name\<close>, and it
  has one row for each record, each with exactly the columns of the header.
\<close>

theorem extractor_header:
  "\<forall>video_elements videos_data logged.
     scan_videos video_elements ([], []) = Inr (videos_data, logged) \<longrightarrow>
       (\<forall>d\<in>set videos_data. map fst d =
          [''title'', ''url'', ''video_duration'', ''channel_name'', ''channel_url'', ''date_time'',
           ''video_date_upload'', ''video_views'', ''video_likes'', ''video_dislikes'',
           ''video_comment_count'', ''video_description'', ''video_tags'']) \<and>
       (\<exists>t. extract_data_from_html video_elements = Inr (t, logged) \<and>
          header t =
            [''title'', ''url'', ''video_duration'', ''channel_name'', ''channel_url'', ''date_time'',
             ''video_date_upload'', ''video_views'', ''video_likes'', ''video_dislikes'',
             ''video_comment_count'', ''video_description'', ''video_tags''] \<and>
          header t ! 1 = ''url'' \<and> header t ! 2 = ''video_duration'' \<and>
          header t ! 3 = ''channel_name'' \<and>
          length (body t) = length videos_data \<and>
          (\<forall>r\<in>set (body t). map fst r = header t))"
proof (intro allI impI)
  fix video_elements videos_data logged
  assume s: "scan_videos video_elements ([], []) = Inr (videos_data, logged)"
  have k: "\<forall>d\<in>set videos_data. map fst d = fieldnames"
    using s by (rule scan_videos_keys) simp
  obtain rs where
    rs: "writerows fieldnames videos_data = Inr rs" "length rs = length videos_data"
        "\<forall>r\<in>set rs. map fst r = fieldnames"
    using writerows_keys[OF k] by auto
  have e: "extract_data_from_html video_elements = Inr (\<lparr>header = fieldnames, body = rs\<rparr>, logged)"
    using s rs(1) by (simp add: extract_data_from_html_def)
  have f: "fieldnames =
      [''title'', ''url'', ''video_duration'', ''channel_name'', ''channel_url'', ''date_time'',
       ''video_date_upload'', ''video_views'', ''video_likes'', ''video_dislikes'',
       ''video_comment_count'', ''video_description'', ''video_tags'']"
    by (simp add: fieldnames_def)
  show "(\<forall>d\<in>set videos_data. map fst d =
          [''title'', ''url'', ''video_duration'', ''channel_name'', ''channel_url'', ''date_time'',
           ''video_date_upload'', ''video_views'', ''video_likes'', ''video_dislikes'',
           ''video_comment_count'', ''video_description'', ''video_tags'']) \<and>
       (\<exists>t. extract_data_from_html video_elements = Inr (t, logged) \<and>
          header t =
            [''title'', ''url'', ''video_duration'', ''channel_name'', ''channel_url'', ''date_time'',
             ''video_date_upload'', ''video_views'', ''video_likes'', ''video_dislikes'',
             ''video_comment_count'', ''video_description'', ''video_tags''] \<and>
          header t ! 1 = ''url'' \<and> header t ! 2 = ''video_duration'' \<and>
          header t ! 3 = ''channel_name'' \<and>
          length (body t) = length videos_data \<and>
          (\<forall>r\<in>set (body t). map fst r = header t))"
  proof (intro conjI)
    show "\<forall>d\<in>set videos_data. map fst d =
          [''title'', ''url'', ''video_duration'', ''channel_name'', ''channel_url'', ''date_time'',
           ''video_date_upload'', ''video_views'', ''video_likes'', ''video_dislikes'',
           ''video_comment_count'', ''video_description'', ''video_tags'']"
      using k unfolding f .
    show "\<exists>t. extract_data_from_html video_elements = Inr (t, logged) \<and>
          header t =
            [''title'', ''url'', ''video_duration'', ''channel_name'', ''channel_url'', ''date_time'',
             ''video_date_upload'', ''video_views'', ''video_likes'', ''video_dislikes'',
             ''video_comment_count'', ''video_description'', ''video_tags''] \<and>
          header t ! 1 = ''url'' \<and> header t ! 2 = ''video_duration'' \<and>
          header t ! 3 = ''channel_name'' \<and>
          length (body t) = length videos_data \<and>
          (\<forall>r\<in>set (body t). map fst r = header t)"
    proof (intro exI conjI)
      show "extract_data_from_html video_elements = Inr (\<lparr>header = fieldnames, body = rs\<rparr>, logged)"
        by (rule e)
      show "length (body \<lparr>header = fieldnames, body = rs\<rparr>) = length videos_data"
        using rs(2) by simp
      show "\<forall>r\<in>set (body \<lparr>header = fieldnames, body = rs\<rparr>).
              map fst r = header \<lparr>header = fieldnames, body = rs\<rparr>"
        using rs(3) by simp
    qed (simp_all add: fieldnames_def)
  qed
qed

lemmas extractor_eval =
  extract_video_def video_dict_def strip_def py_isspace_def match_watch_url_def
  watch_url_heads_def is_id_char_def Let_def asc_def

lemma ex_watched_record:
  "extract_video ex_watched =
     Inr (Some (video_dict (Some (asc ''A video'')) (Some (asc ''https://www.youtube.com/watch?v=abc123''))
                  (Some (asc ''Some Channel'')) (Some (asc ''https://www.youtube.com/channel/UC1''))
                  (Some ex_raw_time)), [])"
  by (simp add: ex_watched_def ex_title_link_def ex_channel_def ex_raw_time_def extractor_eval)


lemma ex_url_title_dropped: "extract_video ex_url_title = Inr (None, [No_title_found])"
  by (simp add: ex_url_title_def extractor_eval)

lemma ex_clean: "clean_date_time ex_raw_time = asc ''Jan 5, 2024, 3:45:12 PM PST''"
  by (simp add: ex_raw_time_def clean_date_time_def asc_def replace.simps)

lemma ex_watched_scan:
  "scan_videos [ex_watched, None] ([], []) =
     Inr ([video_dict (Some (asc ''A video'')) (Some (asc ''https://www.youtube.com/watch?v=abc123''))
             (Some (asc ''Some Channel'')) (Some (asc ''https://www.youtube.com/channel/UC1''))
             (Some ex_raw_time)], [No_title_found])"
  by (simp add: ex_watched_record) (simp add: extract_video_def)

theorem extractor_header_witness:
  "scan_videos [ex_watched, None] ([], []) =
     Inr ([video_dict (Some (asc ''A video'')) (Some (asc ''https://www.youtube.com/watch?v=abc123''))
             (Some (asc ''Some Channel'')) (Some (asc ''https://www.youtube.com/channel/UC1''))
             (Some ex_raw_time)], [No_title_found]) \<and>
   (\<exists>t. extract_data_from_html [ex_watched, None] = Inr (t, [No_title_found]) \<and>
        header t ! 2 = ''video_duration'' \<and> length (body t) = 1)"
  using extractor_header ex_watched_scan by fastforce


text \<open>
  Claim C1, at the example entry. The record the Extractor emits, and the row it writes,
  carry in \<^verbatim>\<open>date_time\<close> the raw text with its narrow no-break space, while
  \<^verbatim>\<open>clean_date_time\<close> of that text, which line 93 computes and drops, is the normalized
  form the claim asks for.
\<close>

theorem date_time_written_raw:
  "\<exists>d t. scan_videos [ex_watched] ([], []) = Inr ([d], []) \<and>
          map_of d ''date_time'' = Some (Some ex_raw_time) \<and>
          extract_data_from_html [ex_watched] = Inr (t, []) \<and>
          map (\<lambda>r. map_of r ''date_time'') (body t) = [Some ex_raw_time] \<and>
          clean_date_time ex_raw_time = asc ''Jan 5, 2024, 3:45:12 PM PST'' \<and>
          clean_date_time ex_raw_time \<noteq> ex_raw_time"
proof (intro exI conjI)
  show "scan_videos [ex_watched] ([], []) =
     Inr ([video_dict (Some (asc ''A video'')) (Some (asc ''https://www.youtube.com/watch?v=abc123''))
             (Some (asc ''Some Channel'')) (Some (asc ''https://www.youtube.com/channel/UC1''))
             (Some ex_raw_time)], [])"
    by (simp add: ex_watched_record)
  show "map_of (video_dict (Some (asc ''A video'')) (Some (asc ''https://www.youtube.com/watch?v=abc123''))
             (Some (asc ''Some Channel'')) (Some (asc ''https://www.youtube.com/channel/UC1''))
             (Some ex_raw_time)) ''date_time'' = Some (Some ex_raw_time)"
    by (simp add: video_dict_def)
  show "extract_data_from_html [ex_watched] =
     Inr (\<lparr>header = fieldnames,
           body = [map (\<lambda>k. (k, case map_of (video_dict (Some (asc ''A video''))
                      (Some (asc ''https://www.youtube.com/watch?v=abc123''))
                      (Some (asc ''Some Channel'')) (Some (asc ''https://www.youtube.com/channel/UC1''))
                      (Some ex_raw_time)) k of Some (Some s) \<Rightarrow> s | _ \<Rightarrow> [])) fieldnames]\<rparr>, [])"
    by (simp add: extract_data_from_html_def ex_watched_record writerow_def video_dict_keys
        list_ex_iff)
  show "map (\<lambda>r. map_of r ''date_time'')
          (body \<lparr>header = fieldnames,
           body = [map (\<lambda>k. (k, case map_of (video_dict (Some (asc ''A video''))
                      (Some (asc ''https://www.youtube.com/watch?v=abc123''))
                      (Some (asc ''Some Channel'')) (Some (asc ''https://www.youtube.com/channel/UC1''))
                      (Some ex_raw_time)) k of Some (Some s) \<Rightarrow> s | _ \<Rightarrow> [])) fieldnames]\<rparr>) =
        [Some ex_raw_time]"
    by (simp add: fieldnames_def video_dict_def)
  show "clean_date_time ex_raw_time = asc ''Jan 5, 2024, 3:45:12 PM PST''"
    by (rule ex_clean)
  show "clean_date_time ex_raw_time \<noteq> ex_raw_time"
    by (simp add: ex_clean) (simp add: ex_raw_time_def asc_def)
qed

lemma next_entry_read_as_channel:
  "extract_video ex_title_then_entry =
     Inr (Some (video_dict (Some (asc ''A removed video''))
                  (Some (asc ''https://www.youtube.com/watch?v=gone''))
                  (Some (asc ''A video'')) (Some (asc ''https://www.youtube.com/watch?v=abc123''))
                  None), [])"
  by (simp add: ex_title_then_entry_def ex_title_link_def extractor_eval)







section \<open>The Metadata Enricher: claims C3, C4 and C5\<close>







lemmas mapping_eval =
  item_facets_def field_mapping_def try_bind_def count_def py_int_def strip_def py_isspace_def
  metadata_columns_def join.simps
  process_datetime_def fromisoformat_def iso_date_def iso_time_def iso_fraction_def iso_zone_def
  days_in_month_def is_leap_def strftime_def
  clean_duration_time_def parse_duration_def match_period_def component_def time_part_def
  at_end_def is_digit_def digits_val_def format_hms_def fmt_02d_def zfill_def str_nat.simps
  Let_def asc_def

lemma ex_item_facets:
  "item_facets ex_item =
     Inr (\<lparr>publishedAt = Some (asc ''2017-11-13T06:06:22Z''), description = Some (asc ''About''),
           tags = None\<rparr>,
          \<lparr>duration = Some (asc ''PT1H2M3S'')\<rparr>,
          \<lparr>viewCount = Some (asc ''12''), likeCount = None, dislikeCount = None,
           commentCount = None\<rparr>)"
  by (simp add: ex_item_def item_facets_def)

lemma ex_item_values:
  "field_mapping
     \<lparr>publishedAt = Some (asc ''2017-11-13T06:06:22Z''), description = Some (asc ''About''),
      tags = None\<rparr>
     \<lparr>duration = Some (asc ''PT1H2M3S'')\<rparr>
     \<lparr>viewCount = Some (asc ''12''), likeCount = None, dislikeCount = None,
      commentCount = None\<rparr> = Inr ex_values"
  by (simp add: ex_values_def mapping_eval)









lemma startswith_append: "startswith (p @ s) p"
  by (induction p) simp_all

lemma watch_prefix_nonempty: "watch_prefix \<noteq> []"
  by (simp add: watch_prefix_def asc_def)

lemma startswith_Nil: "startswith [] p = (p = [])"
  by (cases p) simp_all

lemma replace_none: "old \<noteq> [] \<Longrightarrow> \<not> contains old s \<Longrightarrow> replace old new s = s"
proof (induction s)
  case Nil
  then show ?case by (simp add: replace.simps)
next
  case (Cons c cs)
  then have "\<not> startswith (c # cs) old" "\<not> contains old cs" by simp_all
  then show ?case using Cons by (subst replace.simps) simp
qed

lemma replace_prefix: "old \<noteq> [] \<Longrightarrow> replace old new (old @ s) = new @ replace old new s"
proof -
  assume ne: "old \<noteq> []"
  then obtain c cs where cs: "old @ s = c # cs" by (cases old) auto
  have "replace old new (c # cs) = new @ replace old new (drop (length old) (c # cs))"
    using ne startswith_append[of old s] unfolding cs by (subst replace.simps) simp
  then show ?thesis unfolding cs[symmetric] by simp
qed

text \<open>
  Identifier extraction. Without the prefix \<^verbatim>\<open>https://www.youtube.com/watch?v=\<close> in the
  URL there is no identifier, and one warning. With it the identifier is the URL with
  every occurrence of the prefix removed: the rest after the prefix, when the URL
  starts with the prefix and has no other occurrence of it.
\<close>

lemma extract_video_id_miss:
  "\<not> contains watch_prefix u \<Longrightarrow>
   extract_video_id (Some u) = (None, [Invalid_or_missing_URL (Some u)])"
  by (simp add: extract_video_id_def)

lemma extract_video_id_hit:
  "contains watch_prefix u \<Longrightarrow> extract_video_id (Some u) = (Some (replace watch_prefix [] u), [])"
proof -
  assume c: "contains watch_prefix u"
  then have "u \<noteq> []" using watch_prefix_nonempty by (auto simp: startswith_Nil)
  then show ?thesis using c by (simp add: extract_video_id_def)
qed

lemma extract_video_id_canonical:
  "\<not> contains watch_prefix rest \<Longrightarrow> extract_video_id (Some (watch_prefix @ rest)) = (Some rest, [])"
proof -
  assume n: "\<not> contains watch_prefix rest"
  have "contains watch_prefix (watch_prefix @ rest)"
    using startswith_append[of watch_prefix rest] watch_prefix_nonempty
    by (cases "watch_prefix @ rest") auto
  moreover have "replace watch_prefix [] (watch_prefix @ rest) = rest"
    using replace_prefix[OF watch_prefix_nonempty] replace_none[OF watch_prefix_nonempty n]
    by simp
  ultimately show ?thesis using extract_video_id_hit by simp
qed

text \<open>
  A turn of the loop on a row whose URL does not contain the prefix: the file is not
  touched by that turn, and the two warnings are logged. The same for a row without a
  URL.
\<close>

lemma enrich_video_miss:
  "\<not> contains watch_prefix u \<Longrightarrow>
   enrich_video pd youtube (Some u) (tab, lg) =
     (tab, lg @ [Processing_video_URL u, Invalid_or_missing_URL (Some u),
                 Failed_to_extract_ID (Some u)])"
  by (simp add: enrich_video_def extract_video_id_miss)

lemma enrich_video_None:
  "enrich_video pd youtube None (tab, lg) =
     (tab, lg @ [Encountered_None_URL, Invalid_or_missing_URL None, Failed_to_extract_ID None])"
  by (simp add: enrich_video_def extract_video_id_def)

lemma ex_video_id:
  "extract_video_id (Some (asc ''https://www.youtube.com/watch?v=abc123'')) =
     (Some (asc ''abc123''), [])"
proof -
  have "\<not> contains watch_prefix (asc ''abc123'')" by (simp add: watch_prefix_def asc_def)
  then have "extract_video_id (Some (watch_prefix @ asc ''abc123'')) = (Some (asc ''abc123''), [])"
    by (rule extract_video_id_canonical)
  then show ?thesis by (simp add: watch_prefix_def asc_def)
qed

lemma ex_music_url: "\<not> contains watch_prefix (asc ''https://music.youtube.com/watch?v=xyz'')"
  by (simp add: watch_prefix_def asc_def)

text \<open>
  Turns of the loop on rows whose URL is missing or does not contain the prefix leave
  the file as it is, however many there are.
\<close>

lemma enrich_rows_no_prefix:
  "\<forall>r\<in>set rows. \<exists>c. map_of r ''url'' = Some c \<and>
      (\<forall>u. c = Some u \<longrightarrow> \<not> contains watch_prefix u) \<Longrightarrow>
   \<exists>lg'. enrich_rows pd youtube rows (tab, lg) = Inr (tab, lg')"
proof (induction rows arbitrary: lg)
  case Nil
  then show ?case by simp
next
  case (Cons row rows)
  then obtain c where c: "map_of row ''url'' = Some c"
    and n: "\<forall>u. c = Some u \<longrightarrow> \<not> contains watch_prefix u"
    by auto
  have "\<exists>l1. enrich_video pd youtube c (tab, lg) = (tab, l1)"
  proof (cases c)
    case None
    then show ?thesis by (simp add: enrich_video_None)
  next
    case (Some u)
    then show ?thesis using n by (simp add: enrich_video_miss)
  qed
  then obtain l1 where t: "enrich_video pd youtube c (tab, lg) = (tab, l1)" by blast
  have "\<forall>r\<in>set rows. \<exists>c. map_of r ''url'' = Some c \<and>
          (\<forall>u. c = Some u \<longrightarrow> \<not> contains watch_prefix u)"
    using Cons.prems by simp
  from Cons.IH[OF this, of l1] show ?case using c t by (simp add: enrich_row_def)
qed

lemma enrich_rows_append:
  "enrich_rows pd youtube rows st = Inr st' \<Longrightarrow>
   enrich_rows pd youtube (rows @ later) st = enrich_rows pd youtube later st'"
  by (induction rows arbitrary: st) (auto split: sum.splits)

text \<open>
  The start of a pass over the example file with the \<^verbatim>\<open>NA\<close> title, for a pandas that
  reads the file as the example table and accepts the assignment.
\<close>

lemma ex_na_update:
  assumes "read_csv pd ex_na_history = Inr ex_na_frame"
    and "setitem_error pd ex_na_frame (asc ''https://www.youtube.com/watch?v=abc123'') ex_values = None"
  shows "lookup_and_update pd ex_client (asc ''abc123'') (asc ''https://www.youtube.com/watch?v=abc123'') ex_na_history =
           Inr (Some (to_csv pd (assigned (asc ''https://www.youtube.com/watch?v=abc123'') ex_values ex_na_frame)))"
proof -
  have la: "loc_assign pd (asc ''https://www.youtube.com/watch?v=abc123'') ex_values ex_na_frame =
              Inr (assigned (asc ''https://www.youtube.com/watch?v=abc123'') ex_values ex_na_frame)"
    using assms(2)
    by (simp add: loc_assign_def ex_na_frame_def fieldnames_def ex_values_def
        metadata_columns_def)
  show ?thesis
    using assms(1)
    by (simp add: lookup_and_update_def ex_client_def try_bind_def ex_item_facets
        ex_item_values la)
qed

lemma ex_na_first_turn:
  assumes "read_csv pd ex_na_history = Inr ex_na_frame"
    and "setitem_error pd ex_na_frame (asc ''https://www.youtube.com/watch?v=abc123'') ex_values = None"
  shows "enrich_video pd ex_client (Some (asc ''https://www.youtube.com/watch?v=abc123'')) (ex_na_history, []) =
           (to_csv pd (assigned (asc ''https://www.youtube.com/watch?v=abc123'') ex_values ex_na_frame), [Processing_video_URL (asc ''https://www.youtube.com/watch?v=abc123'')])"
proof -
  have ne: "asc ''abc123'' \<noteq> []" by (simp add: asc_def)
  show ?thesis
    using ne by (simp add: enrich_video_def ex_video_id ex_na_update[OF assms])
qed

lemma ex_na_rows:
  "map as_read (body ex_na_history) =
     [as_read (history_row (asc ''A video'') (asc ''https://www.youtube.com/watch?v=abc123'') (asc ''Jan 5, 2024'')),
      as_read (history_row (asc ''NA'') (asc ''https://music.youtube.com/watch?v=xyz'') (asc ''Jan 6, 2024''))]"
  "map_of (as_read (history_row (asc ''A video'') (asc ''https://www.youtube.com/watch?v=abc123'') (asc ''Jan 5, 2024''))) ''url'' =
         Some (Some (asc ''https://www.youtube.com/watch?v=abc123''))"
  "map_of (as_read (history_row (asc ''NA'') (asc ''https://music.youtube.com/watch?v=xyz'') (asc ''Jan 6, 2024''))) ''url'' =
         Some (Some (asc ''https://music.youtube.com/watch?v=xyz''))"
  "map_of (body ex_na_history ! 1) ''url'' = Some (asc ''https://music.youtube.com/watch?v=xyz'')"
  "map_of (body ex_na_history ! 1) ''title'' = Some (asc ''NA'')"
  by (simp_all add: ex_na_history_def history_row_def as_read_def)

lemma ex_na_frame_title:
  "map_of (frame_rows (assigned (asc ''https://www.youtube.com/watch?v=abc123'') ex_values ex_na_frame) ! 1) ''title'' = Some Missing"
  by (simp add: assigned_def ex_na_frame_def history_frame_row_def asc_def)

text \<open>
  Claim C4 fails on a file with two entries, a video the service knows and an entry of
  another site of the platform whose title is \<^verbatim>\<open>NA\<close>. Take a pandas that reads that
  file as its defaults do (the cell \<^verbatim>\<open>NA\<close> and the empty cells are missing), accepts the
  assignment, and writes a missing title as an empty cell. The turn on the first row
  writes the whole table back. The turn on the second row, whose URL does not contain
  the prefix, logs the two warnings and leaves the file as that turn found it, and so
  do further turns on rows without the prefix; but the second row of the file the pass
  leaves is not the row it was: its title, read as missing, is no longer \<^verbatim>\<open>NA\<close>.
\<close>

theorem na_title_row_rewritten:
  "\<forall>pd.
     read_csv pd ex_na_history = Inr ex_na_frame \<and>
     setitem_error pd ex_na_frame (asc ''https://www.youtube.com/watch?v=abc123'') ex_values = None \<and>
     map_of (body (to_csv pd (assigned (asc ''https://www.youtube.com/watch?v=abc123'') ex_values ex_na_frame)) ! 1) ''title'' = Some [] \<longrightarrow>
     map_of (body ex_na_history ! 1) ''url'' = Some (asc ''https://music.youtube.com/watch?v=xyz'') \<and>
     \<not> contains watch_prefix (asc ''https://music.youtube.com/watch?v=xyz'') \<and>
     enrich_video pd ex_client (Some (asc ''https://www.youtube.com/watch?v=abc123'')) (ex_na_history, []) =
       (to_csv pd (assigned (asc ''https://www.youtube.com/watch?v=abc123'') ex_values ex_na_frame), [Processing_video_URL (asc ''https://www.youtube.com/watch?v=abc123'')]) \<and>
     enrich_video pd ex_client (Some (asc ''https://music.youtube.com/watch?v=xyz'')) (to_csv pd (assigned (asc ''https://www.youtube.com/watch?v=abc123'') ex_values ex_na_frame), [Processing_video_URL (asc ''https://www.youtube.com/watch?v=abc123'')]) =
       (to_csv pd (assigned (asc ''https://www.youtube.com/watch?v=abc123'') ex_values ex_na_frame),
        [Processing_video_URL (asc ''https://www.youtube.com/watch?v=abc123''), Processing_video_URL (asc ''https://music.youtube.com/watch?v=xyz''),
         Invalid_or_missing_URL (Some (asc ''https://music.youtube.com/watch?v=xyz'')), Failed_to_extract_ID (Some (asc ''https://music.youtube.com/watch?v=xyz''))]) \<and>
     (\<forall>later. (\<forall>r\<in>set later. \<exists>c. map_of r ''url'' = Some c \<and>
                  (\<forall>u. c = Some u \<longrightarrow> \<not> contains watch_prefix u)) \<longrightarrow>
        (\<exists>logged. extract_data_from_api pd ex_client (map as_read (body ex_na_history) @ later)
                     ex_na_history = Inr (to_csv pd (assigned (asc ''https://www.youtube.com/watch?v=abc123'') ex_values ex_na_frame), logged))) \<and>
     map_of (frame_rows (assigned (asc ''https://www.youtube.com/watch?v=abc123'') ex_values ex_na_frame) ! 1) ''title'' = Some Missing \<and>
     map_of (body ex_na_history ! 1) ''title'' = Some (asc ''NA'') \<and>
     body (to_csv pd (assigned (asc ''https://www.youtube.com/watch?v=abc123'') ex_values ex_na_frame)) ! 1 \<noteq> body ex_na_history ! 1"
proof (intro allI impI)
  fix pd :: pandas
  assume h: "read_csv pd ex_na_history = Inr ex_na_frame \<and>
     setitem_error pd ex_na_frame (asc ''https://www.youtube.com/watch?v=abc123'') ex_values = None \<and>
     map_of (body (to_csv pd (assigned (asc ''https://www.youtube.com/watch?v=abc123'') ex_values ex_na_frame)) ! 1) ''title'' = Some []"
  note rd = h[THEN conjunct1] and ok = h[THEN conjunct2, THEN conjunct1]
    and wr = h[THEN conjunct2, THEN conjunct2]
  note t1 = ex_na_first_turn[OF rd ok]
  have t2: "enrich_video pd ex_client (Some (asc ''https://music.youtube.com/watch?v=xyz'')) (to_csv pd (assigned (asc ''https://www.youtube.com/watch?v=abc123'') ex_values ex_na_frame), [Processing_video_URL (asc ''https://www.youtube.com/watch?v=abc123'')]) =
       (to_csv pd (assigned (asc ''https://www.youtube.com/watch?v=abc123'') ex_values ex_na_frame),
        [Processing_video_URL (asc ''https://www.youtube.com/watch?v=abc123'')] @ [Processing_video_URL (asc ''https://music.youtube.com/watch?v=xyz''),
         Invalid_or_missing_URL (Some (asc ''https://music.youtube.com/watch?v=xyz'')), Failed_to_extract_ID (Some (asc ''https://music.youtube.com/watch?v=xyz''))])"
    using ex_music_url by (rule enrich_video_miss)
  have two: "enrich_rows pd ex_client (map as_read (body ex_na_history)) (ex_na_history, []) =
       Inr (to_csv pd (assigned (asc ''https://www.youtube.com/watch?v=abc123'') ex_values ex_na_frame),
        [Processing_video_URL (asc ''https://www.youtube.com/watch?v=abc123''), Processing_video_URL (asc ''https://music.youtube.com/watch?v=xyz''),
         Invalid_or_missing_URL (Some (asc ''https://music.youtube.com/watch?v=xyz'')), Failed_to_extract_ID (Some (asc ''https://music.youtube.com/watch?v=xyz''))])"
    unfolding ex_na_rows(1) using t1 t2 by (simp add: enrich_row_def ex_na_rows(2,3))
  have pass: "\<forall>later. (\<forall>r\<in>set later. \<exists>c. map_of r ''url'' = Some c \<and>
                  (\<forall>u. c = Some u \<longrightarrow> \<not> contains watch_prefix u)) \<longrightarrow>
        (\<exists>logged. extract_data_from_api pd ex_client (map as_read (body ex_na_history) @ later)
                     ex_na_history = Inr (to_csv pd (assigned (asc ''https://www.youtube.com/watch?v=abc123'') ex_values ex_na_frame), logged))"
  proof (intro allI impI)
    fix later :: "reader_row list"
    assume m: "\<forall>r\<in>set later. \<exists>c. map_of r ''url'' = Some c \<and>
                  (\<forall>u. c = Some u \<longrightarrow> \<not> contains watch_prefix u)"
    show "\<exists>logged. extract_data_from_api pd ex_client (map as_read (body ex_na_history) @ later)
                     ex_na_history = Inr (to_csv pd (assigned (asc ''https://www.youtube.com/watch?v=abc123'') ex_values ex_na_frame), logged)"
      unfolding extract_data_from_api_def enrich_rows_append[OF two]
      using m by (rule enrich_rows_no_prefix)
  qed
  have ne: "body (to_csv pd (assigned (asc ''https://www.youtube.com/watch?v=abc123'') ex_values ex_na_frame)) ! 1 \<noteq> body ex_na_history ! 1"
  proof
    assume e: "body (to_csv pd (assigned (asc ''https://www.youtube.com/watch?v=abc123'') ex_values ex_na_frame)) ! 1 = body ex_na_history ! 1"
    from wr[unfolded e ex_na_rows(5)] show False by (simp add: asc_def)
  qed
  have t2': "enrich_video pd ex_client (Some (asc ''https://music.youtube.com/watch?v=xyz'')) (to_csv pd (assigned (asc ''https://www.youtube.com/watch?v=abc123'') ex_values ex_na_frame), [Processing_video_URL (asc ''https://www.youtube.com/watch?v=abc123'')]) =
       (to_csv pd (assigned (asc ''https://www.youtube.com/watch?v=abc123'') ex_values ex_na_frame),
        [Processing_video_URL (asc ''https://www.youtube.com/watch?v=abc123''), Processing_video_URL (asc ''https://music.youtube.com/watch?v=xyz''),
         Invalid_or_missing_URL (Some (asc ''https://music.youtube.com/watch?v=xyz'')), Failed_to_extract_ID (Some (asc ''https://music.youtube.com/watch?v=xyz''))])"
    using t2 by simp
  show "map_of (body ex_na_history ! 1) ''url'' = Some (asc ''https://music.youtube.com/watch?v=xyz'') \<and>
     \<not> contains watch_prefix (asc ''https://music.youtube.com/watch?v=xyz'') \<and>
     enrich_video pd ex_client (Some (asc ''https://www.youtube.com/watch?v=abc123'')) (ex_na_history, []) =
       (to_csv pd (assigned (asc ''https://www.youtube.com/watch?v=abc123'') ex_values ex_na_frame), [Processing_video_URL (asc ''https://www.youtube.com/watch?v=abc123'')]) \<and>
     enrich_video pd ex_client (Some (asc ''https://music.youtube.com/watch?v=xyz'')) (to_csv pd (assigned (asc ''https://www.youtube.com/watch?v=abc123'') ex_values ex_na_frame), [Processing_video_URL (asc ''https://www.youtube.com/watch?v=abc123'')]) =
       (to_csv pd (assigned (asc ''https://www.youtube.com/watch?v=abc123'') ex_values ex_na_frame),
        [Processing_video_URL (asc ''https://www.youtube.com/watch?v=abc123''), Processing_video_URL (asc ''https://music.youtube.com/watch?v=xyz''),
         Invalid_or_missing_URL (Some (asc ''https://music.youtube.com/watch?v=xyz'')), Failed_to_extract_ID (Some (asc ''https://music.youtube.com/watch?v=xyz''))]) \<and>
     (\<forall>later. (\<forall>r\<in>set later. \<exists>c. map_of r ''url'' = Some c \<and>
                  (\<forall>u. c = Some u \<longrightarrow> \<not> contains watch_prefix u)) \<longrightarrow>
        (\<exists>logged. extract_data_from_api pd ex_client (map as_read (body ex_na_history) @ later)
                     ex_na_history = Inr (to_csv pd (assigned (asc ''https://www.youtube.com/watch?v=abc123'') ex_values ex_na_frame), logged))) \<and>
     map_of (frame_rows (assigned (asc ''https://www.youtube.com/watch?v=abc123'') ex_values ex_na_frame) ! 1) ''title'' = Some Missing \<and>
     map_of (body ex_na_history ! 1) ''title'' = Some (asc ''NA'') \<and>
     body (to_csv pd (assigned (asc ''https://www.youtube.com/watch?v=abc123'') ex_values ex_na_frame)) ! 1 \<noteq> body ex_na_history ! 1"
    by (intro conjI) (rule ex_na_rows(4) ex_music_url t1 t2' pass ex_na_frame_title
        ex_na_rows(5) ne)+
qed


lemma ex_short_line_url: "map_of ex_short_line ''url'' = Some None"
  by (simp add: ex_short_line_def fieldnames_def)

theorem na_title_row_rewritten_witness:
  "\<exists>pd.
     read_csv pd ex_na_history = Inr ex_na_frame \<and>
     setitem_error pd ex_na_frame (asc ''https://www.youtube.com/watch?v=abc123'') ex_values = None \<and>
     map_of (body (to_csv pd (assigned (asc ''https://www.youtube.com/watch?v=abc123'') ex_values ex_na_frame)) ! 1) ''title'' = Some [] \<and>
     enrich_video pd ex_client (Some (asc ''https://www.youtube.com/watch?v=abc123'')) (ex_na_history, []) =
       (to_csv pd (assigned (asc ''https://www.youtube.com/watch?v=abc123'') ex_values ex_na_frame), [Processing_video_URL (asc ''https://www.youtube.com/watch?v=abc123'')]) \<and>
     (\<exists>logged. extract_data_from_api pd ex_client ex_reader_rows ex_na_history =
        Inr (to_csv pd (assigned (asc ''https://www.youtube.com/watch?v=abc123'') ex_values ex_na_frame), logged)) \<and>
     body (to_csv pd (assigned (asc ''https://www.youtube.com/watch?v=abc123'') ex_values ex_na_frame)) ! 1 \<noteq> body ex_na_history ! 1"
proof -
  let ?pd = "\<lparr>read_csv = (\<lambda>f. Inr ex_na_frame), setitem_error = (\<lambda>df u new. None),
              to_csv = (\<lambda>df. \<lparr>header = columns df,
                 body = map (map (\<lambda>(k, c). (k, case c of Missing \<Rightarrow> [] | Text t \<Rightarrow> t
                                                | Whole n \<Rightarrow> str_int n | Other t \<Rightarrow> t)))
                          (frame_rows df)\<rparr>)\<rparr>"
  have rd: "read_csv ?pd ex_na_history = Inr ex_na_frame" by simp
  have ok: "setitem_error ?pd ex_na_frame (asc ''https://www.youtube.com/watch?v=abc123'') ex_values = None" by simp
  have wr: "map_of (body (to_csv ?pd (assigned (asc ''https://www.youtube.com/watch?v=abc123'') ex_values ex_na_frame)) ! 1) ''title'' = Some []"
    by (simp add: assigned_def ex_na_frame_def history_frame_row_def asc_def)
  note run = na_title_row_rewritten[rule_format, of ?pd, OF conjI[OF rd conjI[OF ok wr]]]
  note t1 = run[THEN conjunct2, THEN conjunct2, THEN conjunct1]
  note pass = run[THEN conjunct2, THEN conjunct2, THEN conjunct2, THEN conjunct2,
      THEN conjunct1, rule_format, of "[ex_short_line]"]
  note ne = run[THEN conjunct2, THEN conjunct2, THEN conjunct2, THEN conjunct2,
      THEN conjunct2, THEN conjunct2, THEN conjunct2]
  have "\<exists>logged. extract_data_from_api ?pd ex_client
          (map as_read (body ex_na_history) @ [ex_short_line]) ex_na_history =
        Inr (to_csv ?pd (assigned (asc ''https://www.youtube.com/watch?v=abc123'') ex_values ex_na_frame), logged)"
    by (rule pass) (simp add: ex_short_line_url)
  then have p: "\<exists>logged. extract_data_from_api ?pd ex_client ex_reader_rows ex_na_history =
        Inr (to_csv ?pd (assigned (asc ''https://www.youtube.com/watch?v=abc123'') ex_values ex_na_frame), logged)"
    unfolding ex_reader_rows_def .
  show ?thesis
    by (rule exI[of _ ?pd]) (intro conjI, (rule rd ok wr t1 p ne)+)
qed

lemma started_append: "started (a @ b) = started a @ started b"
  by (induction a rule: started.induct) simp_all

lemma enrich_video_started:
  "started (snd (enrich_video pd youtube video_url st)) = started (snd st) @ [video_url]"
proof -
  obtain tab lg where st: "st = (tab, lg)" by (cases st)
  have w: "started (snd (extract_video_id video_url)) = []"
    by (simp add: extract_video_id_def split: option.splits)
  have h: "started (case video_url of Some u \<Rightarrow> [Processing_video_URL u]
                    | None \<Rightarrow> [Encountered_None_URL]) = [video_url]"
    by (simp split: option.splits)
  show ?thesis
    unfolding st enrich_video_def
    using w h
    by (auto simp: Let_def started_append split: prod.splits option.splits sum.splits)
qed

lemma enrich_rows_started:
  "\<forall>r\<in>set rows. map_of r ''url'' \<noteq> None \<Longrightarrow>
   \<exists>st'. enrich_rows pd youtube rows st = Inr st' \<and>
         map Some (started (snd st')) =
           map Some (started (snd st)) @ map (\<lambda>r. map_of r ''url'') rows"
proof (induction rows arbitrary: st)
  case Nil
  then show ?case by simp
next
  case (Cons row rows)
  then obtain u where u: "map_of row ''url'' = Some u" by auto
  have "\<forall>r\<in>set rows. map_of r ''url'' \<noteq> None" using Cons.prems by simp
  from Cons.IH[OF this, of "enrich_video pd youtube u st"]
  obtain st' where
    run: "enrich_rows pd youtube rows (enrich_video pd youtube u st) = Inr st'" and
    lg: "map Some (started (snd st')) =
           map Some (started (snd (enrich_video pd youtube u st))) @
           map (\<lambda>r. map_of r ''url'') rows"
    by blast
  have "enrich_rows pd youtube (row # rows) st = Inr st'"
    using u run by (simp add: enrich_row_def)
  moreover have "map Some (started (snd st')) =
           map Some (started (snd st)) @ map (\<lambda>r. map_of r ''url'') (row # rows)"
    using lg u by (simp add: enrich_video_started)
  ultimately show ?case by blast
qed

text \<open>
  Claim C5. An exception of the client, of the reading of the facets or of the field
  mapping is an exception of the \<^verbatim>\<open>try\<close> block (when the mapping would raise, the
  block raises that exception, or the one \<^verbatim>\<open>pd.read_csv\<close> raised before it). When
  the block raises \<open>e\<close> for a row, the turn of the loop ends normally: the file is as
  before, and the warning with the identifier and \<open>e\<close> is logged. Whatever the service
  and pandas do, when the rows the reader hands out have a \<^verbatim>\<open>url\<close> key (the header has
  that column; the cell itself may be \<open>None\<close>), the run ends without an exception and
  every row handed out was started, in order up to the last one.
\<close>

theorem lookup_failure_caught:
  "(\<forall>pd youtube vid u file e. youtube vid = Inl e \<longrightarrow>
      lookup_and_update pd youtube vid u file = Inl e) \<and>
   (\<forall>pd youtube vid u file it others e.
      youtube vid = Inr (Some (it # others)) \<and> item_facets it = Inl e \<longrightarrow>
      lookup_and_update pd youtube vid u file = Inl e) \<and>
   (\<forall>pd youtube vid u file it others video_info video_content_details video_stats e.
      youtube vid = Inr (Some (it # others)) \<and>
      item_facets it = Inr (video_info, video_content_details, video_stats) \<and>
      field_mapping video_info video_content_details video_stats = Inl e \<longrightarrow>
      (\<exists>e'. lookup_and_update pd youtube vid u file = Inl e' \<and>
            (e' = e \<or> read_csv pd file = Inl e'))) \<and>
   (\<forall>pd youtube u vid file logged e.
      extract_video_id (Some u) = (Some vid, []) \<and> vid \<noteq> [] \<and>
      lookup_and_update pd youtube vid u file = Inl e \<longrightarrow>
      enrich_video pd youtube (Some u) (file, logged) =
        (file, logged @ [Processing_video_URL u, Error_processing vid e]) \<and>
      is_warning (Error_processing vid e)) \<and>
   (\<forall>pd youtube reader_rows file. (\<forall>r\<in>set reader_rows. map_of r ''url'' \<noteq> None) \<longrightarrow>
      (\<exists>file' logged. extract_data_from_api pd youtube reader_rows file = Inr (file', logged) \<and>
         map Some (started logged) = map (\<lambda>r. map_of r ''url'') reader_rows))"
proof (intro conjI allI impI)
  fix pd :: pandas and youtube :: youtube_client and reader_rows :: "reader_row list"
    and tab :: table
  assume "\<forall>r\<in>set reader_rows. map_of r ''url'' \<noteq> None"
  from enrich_rows_started[OF this, of pd youtube "(tab, [])"]
  obtain st' where run: "enrich_rows pd youtube reader_rows (tab, []) = Inr st'"
    and lg: "map Some (started (snd st')) = map (\<lambda>r. map_of r ''url'') reader_rows"
    by auto
  show "\<exists>file' logged. extract_data_from_api pd youtube reader_rows tab = Inr (file', logged) \<and>
         map Some (started logged) = map (\<lambda>r. map_of r ''url'') reader_rows"
    using run lg unfolding extract_data_from_api_def
    by (intro exI[of _ "fst st'"] exI[of _ "snd st'"]) simp
next
  fix pd :: pandas and youtube :: youtube_client and vid u tab it others video_info
    video_content_details video_stats e
  assume h: "youtube vid = Inr (Some (it # others)) \<and>
      item_facets it = Inr (video_info, video_content_details, video_stats) \<and>
      field_mapping video_info video_content_details video_stats = Inl e"
  show "\<exists>e'. lookup_and_update pd youtube vid u tab = Inl e' \<and>
            (e' = e \<or> read_csv pd tab = Inl e')"
    using h by (cases "read_csv pd tab") (simp_all add: lookup_and_update_def try_bind_def)
qed (auto simp: lookup_and_update_def try_bind_def enrich_video_def)


lemma ex_reader_rows_urls:
  "map (\<lambda>r. map_of r ''url'') ex_reader_rows =
     [Some (Some (asc ''https://www.youtube.com/watch?v=abc123'')),
      Some (Some (asc ''https://music.youtube.com/watch?v=xyz'')), Some None]"
  by (simp add: ex_reader_rows_def ex_na_history_def history_row_def as_read_def
      ex_short_line_def fieldnames_def)

lemma ex_many_views:
  "field_mapping
     \<lparr>publishedAt = Some (asc ''2017-11-13T06:06:22Z''), description = Some (asc ''About''),
      tags = None\<rparr>
     \<lparr>duration = Some (asc ''PT1H2M3S'')\<rparr>
     \<lparr>viewCount = Some (asc ''many''), likeCount = None, dislikeCount = None,
      commentCount = None\<rparr> = Inl ValueError"
  by (simp add: mapping_eval)

theorem lookup_failure_caught_witness:
  "\<forall>pd.
     lookup_and_update pd ex_failing_client (asc ''abc123'')
       (asc ''https://www.youtube.com/watch?v=abc123'') ex_na_history = Inl (ServiceError 503) \<and>
     enrich_video pd ex_failing_client (Some (asc ''https://www.youtube.com/watch?v=abc123''))
       (ex_na_history, []) =
       (ex_na_history, [Processing_video_URL (asc ''https://www.youtube.com/watch?v=abc123''),
                        Error_processing (asc ''abc123'') (ServiceError 503)]) \<and>
     lookup_and_update pd (\<lambda>video_id. Inr (Some [ex_item\<lparr>snippet := None\<rparr>])) (asc ''abc123'')
       (asc ''https://www.youtube.com/watch?v=abc123'') ex_na_history = Inl (KeyError ''snippet'') \<and>
     (\<exists>e'. lookup_and_update pd
              (\<lambda>video_id. Inr (Some [ex_item\<lparr>statistics :=
                 Some \<lparr>viewCount = Some (asc ''many''), likeCount = None, dislikeCount = None,
                       commentCount = None\<rparr>\<rparr>]))
              (asc ''abc123'') (asc ''https://www.youtube.com/watch?v=abc123'') ex_na_history =
            Inl e' \<and>
          (e' = ValueError \<or> read_csv pd ex_na_history = Inl e')) \<and>
     (\<exists>file' logged.
        extract_data_from_api pd ex_failing_client ex_reader_rows ex_na_history =
          Inr (file', logged) \<and>
        started logged =
          [Some (asc ''https://www.youtube.com/watch?v=abc123''),
           Some (asc ''https://music.youtube.com/watch?v=xyz''), None])"
proof
  fix pd :: pandas
  let ?u = "asc ''https://www.youtube.com/watch?v=abc123''"
  note caught_client = lookup_failure_caught[THEN conjunct1, rule_format]
  note caught_facets = lookup_failure_caught[THEN conjunct2, THEN conjunct1, rule_format]
  note caught_mapping =
    lookup_failure_caught[THEN conjunct2, THEN conjunct2, THEN conjunct1, rule_format]
  note caught_turn =
    lookup_failure_caught[THEN conjunct2, THEN conjunct2, THEN conjunct2, THEN conjunct1,
      rule_format]
  note batch =
    lookup_failure_caught[THEN conjunct2, THEN conjunct2, THEN conjunct2, THEN conjunct2,
      rule_format]
  have c: "ex_failing_client (asc ''abc123'') = Inl (ServiceError 503)"
    by (simp add: ex_failing_client_def)
  have l: "lookup_and_update pd ex_failing_client (asc ''abc123'') ?u ex_na_history =
           Inl (ServiceError 503)"
    using c by (rule caught_client)
  have ne: "asc ''abc123'' \<noteq> []" by (simp add: asc_def)
  have "enrich_video pd ex_failing_client (Some ?u) (ex_na_history, []) =
          (ex_na_history, [] @ [Processing_video_URL ?u,
                                Error_processing (asc ''abc123'') (ServiceError 503)]) \<and>
        is_warning (Error_processing (asc ''abc123'') (ServiceError 503))"
    by (rule caught_turn) (rule conjI[OF ex_video_id conjI[OF ne l]])
  then have s: "enrich_video pd ex_failing_client (Some ?u) (ex_na_history, []) =
          (ex_na_history, [Processing_video_URL ?u,
                           Error_processing (asc ''abc123'') (ServiceError 503)])"
    by simp
  have f: "lookup_and_update pd (\<lambda>video_id. Inr (Some [ex_item\<lparr>snippet := None\<rparr>]))
             (asc ''abc123'') ?u ex_na_history = Inl (KeyError ''snippet'')"
    by (rule caught_facets[of _ _ "ex_item\<lparr>snippet := None\<rparr>" "[]"])
       (simp add: item_facets_def ex_item_def)
  have m: "\<exists>e'. lookup_and_update pd
              (\<lambda>video_id. Inr (Some [ex_item\<lparr>statistics :=
                 Some \<lparr>viewCount = Some (asc ''many''), likeCount = None, dislikeCount = None,
                       commentCount = None\<rparr>\<rparr>]))
              (asc ''abc123'') ?u ex_na_history = Inl e' \<and>
          (e' = ValueError \<or> read_csv pd ex_na_history = Inl e')"
    by (rule caught_mapping[of _ _ "ex_item\<lparr>statistics :=
                 Some \<lparr>viewCount = Some (asc ''many''), likeCount = None, dislikeCount = None,
                       commentCount = None\<rparr>\<rparr>" "[]"
          "\<lparr>publishedAt = Some (asc ''2017-11-13T06:06:22Z''), description = Some (asc ''About''),
            tags = None\<rparr>"
          "\<lparr>duration = Some (asc ''PT1H2M3S'')\<rparr>"
          "\<lparr>viewCount = Some (asc ''many''), likeCount = None, dislikeCount = None,
            commentCount = None\<rparr>"])
       (simp add: item_facets_def ex_item_def ex_many_views)
  have u: "\<forall>r\<in>set ex_reader_rows. map_of r ''url'' \<noteq> None"
    by (simp add: ex_reader_rows_def ex_na_history_def history_row_def as_read_def
        ex_short_line_def fieldnames_def)
  have "\<exists>file' logged.
          extract_data_from_api pd ex_failing_client ex_reader_rows ex_na_history =
            Inr (file', logged) \<and>
          map Some (started logged) = map (\<lambda>r. map_of r ''url'') ex_reader_rows"
    by (rule batch) (use u in blast)
  then have r: "\<exists>file' logged.
        extract_data_from_api pd ex_failing_client ex_reader_rows ex_na_history =
          Inr (file', logged) \<and>
        started logged = [Some ?u, Some (asc ''https://music.youtube.com/watch?v=xyz''), None]"
    unfolding ex_reader_rows_urls by (auto simp: map_eq_Cons_conv)
  show "lookup_and_update pd ex_failing_client (asc ''abc123'') ?u ex_na_history =
          Inl (ServiceError 503) \<and>
     enrich_video pd ex_failing_client (Some ?u) (ex_na_history, []) =
       (ex_na_history, [Processing_video_URL ?u,
                        Error_processing (asc ''abc123'') (ServiceError 503)]) \<and>
     lookup_and_update pd (\<lambda>video_id. Inr (Some [ex_item\<lparr>snippet := None\<rparr>])) (asc ''abc123'')
       ?u ex_na_history = Inl (KeyError ''snippet'') \<and>
     (\<exists>e'. lookup_and_update pd
              (\<lambda>video_id. Inr (Some [ex_item\<lparr>statistics :=
                 Some \<lparr>viewCount = Some (asc ''many''), likeCount = None, dislikeCount = None,
                       commentCount = None\<rparr>\<rparr>]))
              (asc ''abc123'') ?u ex_na_history =
            Inl e' \<and>
          (e' = ValueError \<or> read_csv pd ex_na_history = Inl e')) \<and>
     (\<exists>file' logged.
        extract_data_from_api pd ex_failing_client ex_reader_rows ex_na_history =
          Inr (file', logged) \<and>
        started logged = [Some ?u, Some (asc ''https://music.youtube.com/watch?v=xyz''), None])"
    by (intro conjI) (rule l s f m r)+
qed

end
